theory Spec2Isabelle
  imports Complex_Main
begin

section \<open>Values exchanged with the AirPatrol service\<close>

text \<open>
  The client of \<^verbatim>\<open>airpatrol/api.py\<close> handles the values that \<^verbatim>\<open>resp.json()\<close>
  produces: \<^verbatim>\<open>None\<close>, booleans, integers, floats, strings, lists and dictionaries with
  string keys. A dictionary is an association list in insertion order whose keys are
  pairwise distinct, as in every Python \<^verbatim>\<open>dict\<close>; a lookup takes the first entry
  with the key. A float is the rational number it denotes; NaN and the infinities, which
  are not JSON, are left out. A string is a list of characters.
\<close>

datatype json =
    JNull
  | JBool bool
  | JInt int
  | JFloat rat
  | JStr string
  | JArr "json list"
  | JObj "(string \<times> json) list"

text \<open>
  The exceptions of the module (\<^verbatim>\<open>AirPatrolAuthenticationError\<close>,
  \<^verbatim>\<open>AirPatrolError\<close>), the \<^verbatim>\<open>ValueError\<close> of \<^verbatim>\<open>get_unique_id\<close>, the
  built-in exceptions that attribute access, subscription and iteration raise on a value
  of the wrong kind, and whatever the session or a response raises, which the client
  never catches.
\<close>

datatype error =
    AirPatrolAuthenticationError string
  | AirPatrolError string
  | ValueError string
  | AttributeError
  | TypeError
  | KeyError
  | IndexError
  | TransportError string

definition and_then :: "error + 'a \<Rightarrow> ('a \<Rightarrow> error + 'b) \<Rightarrow> error + 'b" where
  "and_then r f = (case r of Inl e \<Rightarrow> Inl e | Inr v \<Rightarrow> f v)"

subsection \<open>Python's operations on these values\<close>

text \<open>\<^verbatim>\<open>d.get(k, default)\<close>: only a dictionary has the method.\<close>

fun py_get :: "json \<Rightarrow> string \<Rightarrow> json \<Rightarrow> error + json" where
  "py_get (JObj kvs) k dflt = Inr (case map_of kvs k of Some v \<Rightarrow> v | None \<Rightarrow> dflt)"
| "py_get _ k dflt = Inl AttributeError"

text \<open>\<^verbatim>\<open>d[k]\<close> with a string \<^verbatim>\<open>k\<close>: a missing key raises, and no other kind of
  value accepts a string subscript.\<close>

fun py_getitem :: "json \<Rightarrow> string \<Rightarrow> error + json" where
  "py_getitem (JObj kvs) k = (case map_of kvs k of Some v \<Rightarrow> Inr v | None \<Rightarrow> Inl KeyError)"
| "py_getitem _ k = Inl TypeError"

text \<open>\<^verbatim>\<open>xs[0]\<close>: the first element of a list, the first character of a string; a
  dictionary from JSON has no key \<^verbatim>\<open>0\<close>.\<close>

fun py_getitem0 :: "json \<Rightarrow> error + json" where
  "py_getitem0 (JArr xs) = (case xs of [] \<Rightarrow> Inl IndexError | x # _ \<Rightarrow> Inr x)"
| "py_getitem0 (JStr s) = (case s of [] \<Rightarrow> Inl IndexError | ch # _ \<Rightarrow> Inr (JStr [ch]))"
| "py_getitem0 (JObj kvs) = Inl KeyError"
| "py_getitem0 _ = Inl TypeError"

text \<open>\<^verbatim>\<open>for x in v\<close>: the elements of a list, the keys of a dictionary, the characters
  of a string; nothing else is iterable.\<close>

fun py_iter :: "json \<Rightarrow> error + json list" where
  "py_iter (JArr xs) = Inr xs"
| "py_iter (JObj kvs) = Inr (map (\<lambda>kv. JStr (fst kv)) kvs)"
| "py_iter (JStr s) = Inr (map (\<lambda>ch. JStr [ch]) s)"
| "py_iter _ = Inl TypeError"

text \<open>\<^verbatim>\<open>a == b\<close>: \<^verbatim>\<open>bool\<close> is a subclass of \<^verbatim>\<open>int\<close> and numbers compare by
  value across \<^verbatim>\<open>bool\<close>, \<^verbatim>\<open>int\<close> and \<^verbatim>\<open>float\<close>; lists compare element by element;
  dictionaries compare as sets of items; values of different kinds are unequal.\<close>

fun num_of :: "json \<Rightarrow> rat option" where
  "num_of (JBool b) = Some (if b then 1 else 0)"
| "num_of (JInt i) = Some (of_int i)"
| "num_of (JFloat q) = Some q"
| "num_of _ = None"

fun py_eq :: "json \<Rightarrow> json \<Rightarrow> bool"
  and py_eq_list :: "json list \<Rightarrow> json list \<Rightarrow> bool"
  and py_eq_items :: "(string \<times> json) list \<Rightarrow> (string \<times> json) list \<Rightarrow> bool" where
  "py_eq JNull b = (b = JNull)"
| "py_eq (JStr s) b = (case b of JStr t \<Rightarrow> s = t | _ \<Rightarrow> False)"
| "py_eq (JArr xs) b = (case b of JArr ys \<Rightarrow> py_eq_list xs ys | _ \<Rightarrow> False)"
| "py_eq (JObj d1) b =
     (case b of JObj d2 \<Rightarrow> length d1 = length d2 \<and> py_eq_items d1 d2 | _ \<Rightarrow> False)"
| "py_eq (JBool x) b = (case num_of b of Some y \<Rightarrow> (if x then 1 else 0) = y | None \<Rightarrow> False)"
| "py_eq (JInt i) b = (case num_of b of Some y \<Rightarrow> of_int i = y | None \<Rightarrow> False)"
| "py_eq (JFloat q) b = (case num_of b of Some y \<Rightarrow> q = y | None \<Rightarrow> False)"
| "py_eq_list [] ys = (ys = [])"
| "py_eq_list (x # xs) ys = (case ys of [] \<Rightarrow> False | y # ys' \<Rightarrow> py_eq x y \<and> py_eq_list xs ys')"
| "py_eq_items [] d2 = True"
| "py_eq_items (kv # d1) d2 =
     ((case map_of d2 (fst kv) of None \<Rightarrow> False | Some v' \<Rightarrow> py_eq (snd kv) v')
      \<and> py_eq_items d1 d2)"

text \<open>\<^verbatim>\<open>isinstance(v, str)\<close>.\<close>

fun is_str :: "json \<Rightarrow> bool" where
  "is_str (JStr s) = True"
| "is_str _ = False"

text \<open>
  \<^verbatim>\<open>v.upper()\<close>: only a string has the method. \<^verbatim>\<open>str.upper\<close> itself is Python's,
  with the case mappings of Unicode, and not part of this repository: the operations that
  build a unit take it as the parameter \<open>upper\<close>.
\<close>

fun py_upper :: "(string \<Rightarrow> string) \<Rightarrow> json \<Rightarrow> error + string" where
  "py_upper upper (JStr s) = Inr (upper s)"
| "py_upper upper _ = Inl AttributeError"

text \<open>The decimal text of an integer, as an f-string writes \<^verbatim>\<open>resp.status\<close>.\<close>

fun str_of_nat :: "nat \<Rightarrow> string" where
  "str_of_nat n =
     (if n < 10 then [''0123456789'' ! n]
      else str_of_nat (n div 10) @ [''0123456789'' ! (n mod 10)])"

declare str_of_nat.simps [simp del]

definition str_of_int :: "int \<Rightarrow> string" where
  "str_of_int i = (if i < 0 then CHR ''-'' # str_of_nat (nat (- i)) else str_of_nat (nat i))"

text \<open>
  An f-string field \<^verbatim>\<open>{v}\<close> writes a string as it is and any other value through
  Python's built-in \<^verbatim>\<open>repr\<close>, which is not part of this repository: the operations that
  format the access token take it as the parameter \<open>repr\<close>.
\<close>

fun py_format :: "(json \<Rightarrow> string) \<Rightarrow> json \<Rightarrow> string" where
  "py_format repr (JStr s) = s"
| "py_format repr v = repr v"

section \<open>The HTTP session\<close>

text \<open>
  The \<^verbatim>\<open>ClientSession\<close> belongs to the caller. A request is what \<^verbatim>\<open>session.get\<close>
  or \<^verbatim>\<open>session.post\<close> is called with. A response has the integer \<^verbatim>\<open>status\<close>,
  what \<^verbatim>\<open>await resp.json()\<close> gives and what \<^verbatim>\<open>await resp.text()\<close> gives: each
  is a value, or the exception that reading or decoding the body raises. The remote side
  is any function of the requests made so far and the present one; it answers with a
  response or with the exception the transport raises. Every call is recorded in
  \<open>calls\<close>, whether it is answered or not. Writing to the log has no effect that the
  model keeps; reading the body for the log has.
\<close>

datatype http_method = GET | POST

record request =
  verb :: http_method
  url :: string
  headers :: "(string \<times> string) list"
  body :: "json option"

record response =
  status :: int
  json_body :: "string + json"
  text_body :: "string + string"

record session =
  server :: "request list \<Rightarrow> request \<Rightarrow> string + response"
  calls :: "request list"

definition session_request :: "session \<Rightarrow> request \<Rightarrow> (error + response) \<times> session" where
  "session_request s req =
     ((case server s (calls s) req of Inl exn \<Rightarrow> Inl (TransportError exn) | Inr resp \<Rightarrow> Inr resp),
      s\<lparr>calls := calls s @ [req]\<rparr>)"

definition session_get :: "session \<Rightarrow> string \<Rightarrow> (string \<times> string) list
    \<Rightarrow> (error + response) \<times> session" where
  "session_get s u hs = session_request s \<lparr>verb = GET, url = u, headers = hs, body = None\<rparr>"

definition session_post :: "session \<Rightarrow> string \<Rightarrow> (string \<times> string) list \<Rightarrow> json
    \<Rightarrow> (error + response) \<times> session" where
  "session_post s u hs j =
     session_request s \<lparr>verb = POST, url = u, headers = hs, body = Some j\<rparr>"

definition resp_json :: "response \<Rightarrow> error + json" where
  "resp_json resp = (case json_body resp of Inl exn \<Rightarrow> Inl (TransportError exn) | Inr j \<Rightarrow> Inr j)"

definition resp_text :: "response \<Rightarrow> error + string" where
  "resp_text resp = (case text_body resp of Inl exn \<Rightarrow> Inl (TransportError exn) | Inr t \<Rightarrow> Inr t)"

subsection \<open>Constants of \<^verbatim>\<open>airpatrol/const.py\<close>\<close>

definition AUTH_BASE_URL :: string where
  "AUTH_BASE_URL = ''https://auth.apsrvd.io/v1''"

definition AUTH_LOGIN_ENDPOINT :: string where
  "AUTH_LOGIN_ENDPOINT = ''/login''"

definition AUTH_PAIRINGS_ENDPOINT :: string where
  "AUTH_PAIRINGS_ENDPOINT = ''/pairings''"

definition API_VERSION :: string where
  "API_VERSION = ''12''"

definition API_BASE_URL :: string where
  "API_BASE_URL = ''https://api.apsrvd.io/'' @ API_VERSION"

definition API_COMMAND_ENDPOINT :: string where
  "API_COMMAND_ENDPOINT = ''/command''"

section \<open>The client\<close>

text \<open>
  An \<^verbatim>\<open>AirPatrolAPI\<close> object: the session it was given, the access token, the user
  id (\<open>JNull\<close> is Python's \<^verbatim>\<open>None\<close>) and the cache of the pairings document
  (\<open>None\<close> is \<^verbatim>\<open>None\<close>). The annotations say \<^verbatim>\<open>str\<close> for the token and
  \<^verbatim>\<open>str | None\<close> for the user id, but \<^verbatim>\<open>authenticate\<close> stores whatever the login
  body holds, so both fields are values of type \<open>json\<close>. A method takes the object and
  returns its result together with the object as the call leaves it.
\<close>

record client =
  session :: session
  access_token :: json
  user_id :: json
  pairings_cache :: "json option"

definition AirPatrolAPI :: "session \<Rightarrow> json \<Rightarrow> json \<Rightarrow> client" where
  "AirPatrolAPI s tok uid =
     \<lparr>session = s, access_token = tok, user_id = uid, pairings_cache = None\<rparr>"

subsection \<open>\<^verbatim>\<open>authenticate\<close>\<close>

text \<open>\<^verbatim>\<open>data["entities"]["users"]["list"][0]["id"]\<close> and
  \<^verbatim>\<open>data["misc"]["accessToken"]\<close>, each subscript raising as Python does.\<close>

definition login_user_id :: "json \<Rightarrow> error + json" where
  "login_user_id data =
     and_then (py_getitem data ''entities'') (\<lambda>entities.
     and_then (py_getitem entities ''users'') (\<lambda>users.
     and_then (py_getitem users ''list'') (\<lambda>lst.
     and_then (py_getitem0 lst) (\<lambda>first.
     py_getitem first ''id''))))"

definition login_access_token :: "json \<Rightarrow> error + json" where
  "login_access_token data =
     and_then (py_getitem data ''misc'') (\<lambda>misc. py_getitem misc ''accessToken'')"

definition authenticate :: "session \<Rightarrow> string \<Rightarrow> string \<Rightarrow> (error + client) \<times> session" where
  "authenticate s email password =
     (case session_post s (AUTH_BASE_URL @ AUTH_LOGIN_ENDPOINT) []
             (JObj [(''email'', JStr email), (''password'', JStr password)]) of
        (Inl exn, s') \<Rightarrow> (Inl exn, s')
      | (Inr resp, s') \<Rightarrow>
          (if status resp \<noteq> 200
           then
             and_then (resp_text resp) (\<lambda>logged.
             Inl (AirPatrolAuthenticationError ''Authentication failed''))
           else
             and_then (resp_json resp) (\<lambda>data.
             and_then (py_get data ''status'' JNull) (\<lambda>st.
               if py_eq st (JStr ''ok'')
               then
                 and_then (login_user_id data) (\<lambda>uid.
                 and_then (login_access_token data) (\<lambda>tok.
                 Inr (AirPatrolAPI s' tok uid)))
               else Inl (AirPatrolAuthenticationError ''Authentication failed''))),
           s'))"

subsection \<open>Accessors and the cache\<close>

definition get_unique_id :: "client \<Rightarrow> (error + json) \<times> client" where
  "get_unique_id c =
     (if user_id c = JNull then Inl (ValueError ''Not authenticated'') else Inr (user_id c), c)"

definition get_access_token :: "client \<Rightarrow> json \<times> client" where
  "get_access_token c = (access_token c, c)"

definition clear_pairings_cache :: "client \<Rightarrow> client" where
  "clear_pairings_cache c = c\<lparr>pairings_cache := None\<rparr>"

subsection \<open>\<^verbatim>\<open>get_pairings\<close>\<close>

definition bearer :: "(json \<Rightarrow> string) \<Rightarrow> client \<Rightarrow> string" where
  "bearer repr c = ''Bearer '' @ py_format repr (access_token c)"

definition get_pairings :: "(json \<Rightarrow> string) \<Rightarrow> client \<Rightarrow> (error + json) \<times> client" where
  "get_pairings repr c =
     (case pairings_cache c of
        Some cached \<Rightarrow> (Inr cached, c)
      | None \<Rightarrow>
          (case session_get (session c) (AUTH_BASE_URL @ AUTH_PAIRINGS_ENDPOINT)
                  [(''Authorization'', bearer repr c)] of
             (Inl exn, s') \<Rightarrow> (Inl exn, c\<lparr>session := s'\<rparr>)
           | (Inr resp, s') \<Rightarrow>
               (if status resp = 401 \<or> status resp = 403
                then
                  (and_then (resp_text resp) (\<lambda>logged.
                   Inl (AirPatrolAuthenticationError ''Failed to fetch pairings'')),
                   c\<lparr>session := s'\<rparr>)
                else if status resp = 200
                then
                  (case and_then (resp_json resp) (\<lambda>data.
                          and_then (py_get data ''status'' JNull) (\<lambda>st.
                            if \<not> py_eq st (JStr ''ok'')
                            then Inl (AirPatrolError ''API returned error status'')
                            else Inr data)) of
                     Inl exn \<Rightarrow> (Inl exn, c\<lparr>session := s'\<rparr>)
                   | Inr data \<Rightarrow> (Inr data, c\<lparr>session := s', pairings_cache := Some data\<rparr>))
                else
                  (Inl (AirPatrolError
                          (''Failed to fetch pairings: '' @ str_of_int (status resp))),
                   c\<lparr>session := s'\<rparr>))))"

subsection \<open>\<^verbatim>\<open>get_devices\<close>\<close>

text \<open>\<^verbatim>\<open>data.get("entities", {}).get(key, {}).get("list", [])\<close>.\<close>

definition entity_list :: "json \<Rightarrow> string \<Rightarrow> error + json" where
  "entity_list data key =
     and_then (py_get data ''entities'' (JObj [])) (\<lambda>entities.
     and_then (py_get entities key (JObj [])) (\<lambda>entity.
     py_get entity ''list'' (JArr [])))"

text \<open>The inner loop: the first pairing whose \<^verbatim>\<open>id\<close> equals \<^verbatim>\<open>pairing_id\<close> is
  appended and the loop is left.\<close>

fun find_pairing :: "json list \<Rightarrow> json \<Rightarrow> error + json option" where
  "find_pairing [] pairing_id = Inr None"
| "find_pairing (pairing # rest) pairing_id =
     (case py_get pairing ''id'' JNull of
        Inl exn \<Rightarrow> Inl exn
      | Inr i \<Rightarrow> if py_eq i pairing_id then Inr (Some pairing) else find_pairing rest pairing_id)"

text \<open>One turn of the outer loop. The list of pairings is looked up only for an entry
  of the user.\<close>

definition user_pairings_step :: "json \<Rightarrow> json \<Rightarrow> json \<Rightarrow> json list \<Rightarrow> error + json list" where
  "user_pairings_step data uid pairing_user user_pairings =
     and_then (py_get pairing_user ''userId'' JNull) (\<lambda>u.
       if py_eq u uid
       then
         and_then (py_get pairing_user ''pairingId'' JNull) (\<lambda>pairing_id.
         and_then (entity_list data ''pairings'') (\<lambda>pairings.
         and_then (py_iter pairings) (\<lambda>ps.
         and_then (find_pairing ps pairing_id) (\<lambda>found.
           Inr (case found of None \<Rightarrow> user_pairings | Some p \<Rightarrow> user_pairings @ [p])))))
       else Inr user_pairings)"

fun user_pairings_loop :: "json \<Rightarrow> json \<Rightarrow> json list \<Rightarrow> json list \<Rightarrow> error + json list" where
  "user_pairings_loop data uid [] user_pairings = Inr user_pairings"
| "user_pairings_loop data uid (pairing_user # rest) user_pairings =
     (case user_pairings_step data uid pairing_user user_pairings of
        Inl exn \<Rightarrow> Inl exn
      | Inr user_pairings' \<Rightarrow> user_pairings_loop data uid rest user_pairings')"

definition get_devices :: "(json \<Rightarrow> string) \<Rightarrow> client \<Rightarrow> (error + json list) \<times> client" where
  "get_devices repr c =
     (case get_pairings repr c of
        (Inl exn, c') \<Rightarrow> (Inl exn, c')
      | (Inr data, c') \<Rightarrow>
          (and_then (entity_list data ''pairingUser'') (\<lambda>pairing_users.
           and_then (py_iter pairing_users) (\<lambda>pus.
           user_pairings_loop data (user_id c') pus [])),
           c'))"

subsection \<open>\<^verbatim>\<open>get_unit_climate_data\<close> and \<^verbatim>\<open>set_unit_climate_data\<close>\<close>

definition get_unit_climate_data :: "(json \<Rightarrow> string) \<Rightarrow> client \<Rightarrow> string
    \<Rightarrow> (error + json) \<times> client" where
  "get_unit_climate_data repr c unit_id =
     (case session_get (session c) (API_BASE_URL @ API_COMMAND_ENDPOINT)
             [(''Authorization'', bearer repr c), (''X-Pairing-Id'', unit_id)] of
        (Inl exn, s') \<Rightarrow> (Inl exn, c\<lparr>session := s'\<rparr>)
      | (Inr resp, s') \<Rightarrow>
          (if status resp = 401 \<or> status resp = 403
           then Inl (AirPatrolAuthenticationError ''Failed to fetch climate data'')
           else if status resp = 200
           then resp_json resp
           else Inl (AirPatrolError
                       (''Failed to fetch climate data: '' @ str_of_int (status resp))),
           c\<lparr>session := s'\<rparr>))"

definition set_unit_climate_data :: "(json \<Rightarrow> string) \<Rightarrow> client \<Rightarrow> string \<Rightarrow> json
    \<Rightarrow> (error + json) \<times> client" where
  "set_unit_climate_data repr c unit_id climate_data =
     (case session_post (session c) (API_BASE_URL @ API_COMMAND_ENDPOINT)
             [(''Authorization'', bearer repr c), (''X-Pairing-Id'', unit_id)] climate_data of
        (Inl exn, s') \<Rightarrow> (Inl exn, c\<lparr>session := s'\<rparr>)
      | (Inr resp, s') \<Rightarrow>
          (if status resp = 401 \<or> status resp = 403
           then Inl (AirPatrolAuthenticationError ''Failed to set climate data'')
           else if status resp = 200
           then resp_json resp
           else Inl (AirPatrolError
                       (''Failed to set climate data: '' @ str_of_int (status resp))),
           c\<lparr>session := s'\<rparr>))"

subsection \<open>\<^verbatim>\<open>get_data\<close> and \<^verbatim>\<open>get_units\<close>\<close>

text \<open>The dictionary \<^verbatim>\<open>unit_data\<close>, its values evaluated in the order of the
  source.\<close>

definition unit_data :: "(string \<Rightarrow> string) \<Rightarrow> json \<Rightarrow> string \<Rightarrow> json \<Rightarrow> error + json" where
  "unit_data upper device unit_id climate_data =
     and_then (py_get device ''name'' (JStr (''AirPatrol Device '' @ unit_id))) (\<lambda>name.
     and_then (py_get device ''type'' (JStr ''Unknown'')) (\<lambda>ty.
     and_then (py_upper upper ty) (\<lambda>upper_type.
     and_then (py_get device ''hwid'' JNull) (\<lambda>hwid.
     and_then (py_get device ''type'' JNull) (\<lambda>type.
     and_then (py_get device ''appId'' JNull) (\<lambda>app_id.
     Inr (JObj [(''unit_id'', JStr unit_id),
                (''name'', name),
                (''model'', JStr (''AirPatrol '' @ upper_type)),
                (''manufacturer'', JStr ''AirPatrol''),
                (''hwid'', hwid),
                (''type'', type),
                (''app_id'', app_id),
                (''climate'', climate_data)])))))))"

text \<open>One turn of the loop over the devices: a device whose \<^verbatim>\<open>id\<close> is not a string
  is passed over; otherwise the climate data are fetched, then the unit is built and
  appended.\<close>

definition get_data_step :: "(json \<Rightarrow> string) \<Rightarrow> (string \<Rightarrow> string) \<Rightarrow> client \<Rightarrow> json
    \<Rightarrow> json list \<Rightarrow> (error + json list) \<times> client" where
  "get_data_step repr upper c device units =
     (case py_get device ''id'' JNull of
        Inl exn \<Rightarrow> (Inl exn, c)
      | Inr (JStr unit_id) \<Rightarrow>
          (case get_unit_climate_data repr c unit_id of
             (Inl exn, c') \<Rightarrow> (Inl exn, c')
           | (Inr climate_data, c') \<Rightarrow>
               (case unit_data upper device unit_id climate_data of
                  Inl exn \<Rightarrow> (Inl exn, c')
                | Inr u \<Rightarrow> (Inr (units @ [u]), c')))
      | Inr _ \<Rightarrow> (Inr units, c))"

fun get_data_loop :: "(json \<Rightarrow> string) \<Rightarrow> (string \<Rightarrow> string) \<Rightarrow> client \<Rightarrow> json list
    \<Rightarrow> json list \<Rightarrow> (error + json list) \<times> client" where
  "get_data_loop repr upper c [] units = (Inr units, c)"
| "get_data_loop repr upper c (device # rest) units =
     (case get_data_step repr upper c device units of
        (Inl exn, c') \<Rightarrow> (Inl exn, c')
      | (Inr units', c') \<Rightarrow> get_data_loop repr upper c' rest units')"

definition get_data :: "(json \<Rightarrow> string) \<Rightarrow> (string \<Rightarrow> string) \<Rightarrow> client
    \<Rightarrow> (error + json list) \<times> client" where
  "get_data repr upper c =
     (case get_devices repr c of
        (Inl exn, c') \<Rightarrow> (Inl exn, c')
      | (Inr devices, c') \<Rightarrow> get_data_loop repr upper c' devices [])"

definition get_units :: "(json \<Rightarrow> string) \<Rightarrow> (string \<Rightarrow> string) \<Rightarrow> client
    \<Rightarrow> (error + json list) \<times> client" where
  "get_units repr upper c = get_data repr upper c"

section \<open>Vocabulary of the properties\<close>

text \<open>The requests that the operations send.\<close>

definition login_request :: "string \<Rightarrow> string \<Rightarrow> request" where
  "login_request email password =
     \<lparr>verb = POST, url = ''https://auth.apsrvd.io/v1/login'', headers = [],
      body = Some (JObj [(''email'', JStr email), (''password'', JStr password)])\<rparr>"

definition pairings_request :: "string \<Rightarrow> request" where
  "pairings_request authorization =
     \<lparr>verb = GET, url = ''https://auth.apsrvd.io/v1/pairings'',
      headers = [(''Authorization'', authorization)], body = None\<rparr>"

definition command_request :: "http_method \<Rightarrow> string \<Rightarrow> string \<Rightarrow> json option \<Rightarrow> request" where
  "command_request m authorization unit_id payload =
     \<lparr>verb = m, url = ''https://api.apsrvd.io/12/command'',
      headers = [(''Authorization'', authorization), (''X-Pairing-Id'', unit_id)],
      body = payload\<rparr>"

text \<open>The answer of the remote side to the next call of a client.\<close>

definition answer :: "client \<Rightarrow> request \<Rightarrow> string + response" where
  "answer c req = server (session c) (calls (session c)) req"

definition network_calls :: "client \<Rightarrow> request list" where
  "network_calls c = calls (session c)"

text \<open>The client as a call leaves it when the call sent one request and changed nothing
  else.\<close>

definition sent :: "client \<Rightarrow> request \<Rightarrow> client" where
  "sent c req = c\<lparr>session := (session c)\<lparr>calls := calls (session c) @ [req]\<rparr>\<rparr>"

text \<open>The value under a key of a dictionary, \<^verbatim>\<open>None\<close> when the key is absent.\<close>

definition field :: "json \<Rightarrow> string \<Rightarrow> json" where
  "field v k =
     (case v of JObj kvs \<Rightarrow> (case map_of kvs k of Some x \<Rightarrow> x | None \<Rightarrow> JNull) | _ \<Rightarrow> JNull)"

definition has_key :: "json \<Rightarrow> string \<Rightarrow> bool" where
  "has_key v k = (case v of JObj kvs \<Rightarrow> map_of kvs k \<noteq> None | _ \<Rightarrow> False)"

fun is_obj :: "json \<Rightarrow> bool" where
  "is_obj (JObj kvs) = True"
| "is_obj _ = False"

text \<open>
  The field that a path of keys names in a document, as in \<^verbatim>\<open>misc.accessToken\<close>:
  every step but the last leads to a dictionary that has the next key.
\<close>

fun at_path :: "json \<Rightarrow> string list \<Rightarrow> json option" where
  "at_path v [] = Some v"
| "at_path (JObj kvs) (k # ks) =
     (case map_of kvs k of None \<Rightarrow> None | Some x \<Rightarrow> at_path x ks)"
| "at_path _ (k # ks) = None"

text \<open>The value under a key, or a default when the key is absent.\<close>

definition or_default :: "json \<Rightarrow> string \<Rightarrow> json \<Rightarrow> json" where
  "or_default v k dflt = (if has_key v k then field v k else dflt)"

fun is_auth_error :: "error + 'a \<Rightarrow> bool" where
  "is_auth_error (Inl (AirPatrolAuthenticationError msg)) = True"
| "is_auth_error _ = False"

text \<open>
  Device resolution in the words of the specification: of the entries of
  \<^verbatim>\<open>entities.pairingUser.list\<close>, those whose \<^verbatim>\<open>userId\<close> equals the user id are
  kept, and each is replaced by the first pairing of \<^verbatim>\<open>entities.pairings.list\<close> whose
  \<^verbatim>\<open>id\<close> equals the entry's \<^verbatim>\<open>pairingId\<close>, or dropped when there is none.
\<close>

definition owned_entries :: "json \<Rightarrow> json list \<Rightarrow> json list" where
  "owned_entries uid pairing_users = filter (\<lambda>e. py_eq (field e ''userId'') uid) pairing_users"

definition first_pairing :: "json list \<Rightarrow> json \<Rightarrow> json option" where
  "first_pairing pairings e = find (\<lambda>p. py_eq (field p ''id'') (field e ''pairingId'')) pairings"

definition resolved_pairings :: "json \<Rightarrow> json list \<Rightarrow> json list \<Rightarrow> json list" where
  "resolved_pairings uid pairing_users pairings =
     List.map_filter (first_pairing pairings) (owned_entries uid pairing_users)"

text \<open>
  A unit climate snapshot in the words of the specification: the device has a string
  \<^verbatim>\<open>id\<close>, which is the snapshot's \<^verbatim>\<open>unit_id\<close>; the \<^verbatim>\<open>model\<close> is
  \<^verbatim>\<open>"AirPatrol "\<close> followed by the upper-cased \<^verbatim>\<open>type\<close>, which is \<^verbatim>\<open>"Unknown"\<close>
  when absent; the \<^verbatim>\<open>name\<close> is the device's, or \<^verbatim>\<open>"AirPatrol Device "\<close>
  followed by the id when the device has none; the \<^verbatim>\<open>manufacturer\<close> is
  \<^verbatim>\<open>"AirPatrol"\<close>. The devices that are not passed over are those with a string
  \<^verbatim>\<open>id\<close>, and for each of them one request for its climate data is sent.
\<close>

definition has_str_id :: "json \<Rightarrow> bool" where
  "has_str_id device = is_str (field device ''id'')"

definition unit_id_of :: "json \<Rightarrow> string" where
  "unit_id_of device = (case field device ''id'' of JStr unit_id \<Rightarrow> unit_id | _ \<Rightarrow> [])"

definition snapshot_of :: "(string \<Rightarrow> string) \<Rightarrow> json \<Rightarrow> json \<Rightarrow> bool" where
  "snapshot_of upper device u =
     (case field device ''id'' of
        JStr unit_id \<Rightarrow>
          field u ''unit_id'' = JStr unit_id
          \<and> field u ''manufacturer'' = JStr ''AirPatrol''
          \<and> field u ''name'' = or_default device ''name'' (JStr (''AirPatrol Device '' @ unit_id))
          \<and> (case or_default device ''type'' (JStr ''Unknown'') of
                JStr t \<Rightarrow> field u ''model'' = JStr (''AirPatrol '' @ upper t)
              | _ \<Rightarrow> False)
      | _ \<Rightarrow> False)"

section \<open>The sessions and documents of the test suite\<close>

text \<open>
  The responses of the test suite's \<^verbatim>\<open>MockAiohttpResponse\<close>, a session whose remote
  side gives one answer to every request, the session of \<^verbatim>\<open>test_get_data_success\<close>,
  which answers by the URL, and the clients and documents of the tests.
\<close>

definition json_response :: "int \<Rightarrow> json \<Rightarrow> response" where
  "json_response st j = \<lparr>status = st, json_body = Inr j, text_body = Inr ''''\<rparr>"

definition text_response :: "int \<Rightarrow> string \<Rightarrow> response" where
  "text_response st t = \<lparr>status = st, json_body = Inr JNull, text_body = Inr t\<rparr>"

definition fixed_session :: "response \<Rightarrow> session" where
  "fixed_session resp = \<lparr>server = (\<lambda>log req. Inr resp), calls = []\<rparr>"

text \<open>The tokens of the examples are strings, so no value is ever formatted through
  \<open>repr\<close>; the examples pass this one.\<close>

definition unused_repr :: "json \<Rightarrow> string" where
  "unused_repr v = []"

text \<open>On a string of ASCII characters \<^verbatim>\<open>str.upper\<close> changes the letters \<^verbatim>\<open>a\<close>
  to \<^verbatim>\<open>z\<close> and nothing else. The strings of the examples are ASCII, and the examples
  pass this function for \<open>upper\<close>.\<close>

definition ascii_upper :: "string \<Rightarrow> string" where
  "ascii_upper s =
     map (\<lambda>ch. case map_of (zip ''abcdefghijklmnopqrstuvwxyz'' ''ABCDEFGHIJKLMNOPQRSTUVWXYZ'') ch of
                 Some up \<Rightarrow> up
               | None \<Rightarrow> ch) s"

text \<open>The bodies of \<^verbatim>\<open>test_authenticate_success\<close> and of
  \<^verbatim>\<open>test_get_pairings_failure_error_status\<close>.\<close>

definition login_ok_body :: json where
  "login_ok_body =
     JObj [(''status'', JStr ''ok''),
           (''entities'',
            JObj [(''users'', JObj [(''list'', JArr [JObj [(''id'', JStr ''test_user_id'')]])])]),
           (''misc'', JObj [(''accessToken'', JStr ''test_access_token'')])]"

definition error_body :: json where
  "error_body = JObj [(''status'', JStr ''error''), (''errors'', JArr [JStr ''Invalid token''])]"

text \<open>The discovery document and the climate data of \<^verbatim>\<open>test_get_data_success\<close>, the
  unit that the test expects, and the unit of a device that has only an id.\<close>

definition test_pairing_user :: json where
  "test_pairing_user =
     JObj [(''userId'', JStr ''11111''), (''pairingId'', JStr ''00000''), (''id'', JStr ''000011'')]"

definition test_device :: json where
  "test_device =
     JObj [(''id'', JStr ''00000''),
           (''appId'', JStr ''00000-00000-00000-00000-00000''),
           (''cid'', JStr ''00000''),
           (''hwid'', JStr ''AAAAA-BBBBB-CCCCC-DDDDD-EEEEE''),
           (''name'', JStr ''Test Device''),
           (''type'', JStr ''apw'')]"

definition pairings_body :: json where
  "pairings_body =
     JObj [(''entities'',
            JObj [(''pairingUser'', JObj [(''list'', JArr [test_pairing_user])]),
                  (''users'',
                   JObj [(''list'',
                          JArr [JObj [(''id'', JStr ''11111''),
                                      (''firstName'', JNull),
                                      (''lastName'', JNull)]])]),
                  (''pairings'', JObj [(''list'', JArr [test_device])])]),
           (''misc'', JObj []),
           (''status'', JStr ''ok''),
           (''errors'', JArr [])]"

definition climate_body :: json where
  "climate_body =
     JObj [(''ApiVersion'', JStr ''12''),
           (''CommandMode'', JStr ''parameters''),
           (''ParametersData'',
            JObj [(''PumpPower'', JStr ''on''),
                  (''PumpTemp'', JStr ''16.000''),
                  (''PumpMode'', JStr ''heat''),
                  (''FanSpeed'', JStr ''max''),
                  (''Swing'', JStr ''off'')]),
           (''RoomTemp'', JStr ''27.517''),
           (''RoomHumidity'', JStr ''56'')]"

definition test_unit :: json where
  "test_unit =
     JObj [(''unit_id'', JStr ''00000''),
           (''name'', JStr ''Test Device''),
           (''model'', JStr ''AirPatrol APW''),
           (''manufacturer'', JStr ''AirPatrol''),
           (''hwid'', JStr ''AAAAA-BBBBB-CCCCC-DDDDD-EEEEE''),
           (''type'', JStr ''apw''),
           (''app_id'', JStr ''00000-00000-00000-00000-00000''),
           (''climate'', climate_body)]"

definition bare_unit :: json where
  "bare_unit =
     JObj [(''unit_id'', JStr ''00001''),
           (''name'', JStr ''AirPatrol Device 00001''),
           (''model'', JStr ''AirPatrol UNKNOWN''),
           (''manufacturer'', JStr ''AirPatrol''),
           (''hwid'', JNull),
           (''type'', JNull),
           (''app_id'', JNull),
           (''climate'', climate_body)]"

text \<open>The client of the fixture \<^verbatim>\<open>api\<close> on a session with one answer, and the client
  of \<^verbatim>\<open>test_get_data_success\<close>, before and after it fetched the pairings.\<close>

definition test_api :: "response \<Rightarrow> client" where
  "test_api resp =
     AirPatrolAPI (fixed_session resp) (JStr ''test_access_token'') (JStr ''test_user_id'')"

definition test_pairings_request :: request where
  "test_pairings_request = pairings_request ''Bearer test_access_token''"

definition routed_session :: session where
  "routed_session =
     \<lparr>server = (\<lambda>log req.
         if url req = ''https://auth.apsrvd.io/v1/pairings'' then Inr (json_response 200 pairings_body)
         else if url req = ''https://api.apsrvd.io/12/command'' then Inr (json_response 200 climate_body)
         else Inr (json_response 404 (JObj []))),
      calls = []\<rparr>"

definition data_api :: "string \<Rightarrow> client" where
  "data_api uid = AirPatrolAPI routed_session (JStr ''dummy_token'') (JStr uid)"

definition data_api_fetched :: "string \<Rightarrow> client" where
  "data_api_fetched uid =
     (sent (data_api uid) (pairings_request ''Bearer dummy_token''))
       \<lparr>pairings_cache := Some pairings_body\<rparr>"

text \<open>
  A discovery document with three devices of the user \<^verbatim>\<open>11111\<close>: one whose \<^verbatim>\<open>id\<close>
  is a number, one that has an \<^verbatim>\<open>id\<close> and nothing else, and the device of the test
  suite; the session that serves it, and its client before and after it fetched the
  pairings.
\<close>

definition seven_device :: json where
  "seven_device = JObj [(''id'', JInt 7), (''name'', JStr ''Seven''), (''type'', JStr ''apw'')]"

definition bare_device :: json where
  "bare_device = JObj [(''id'', JStr ''00001'')]"

definition mixed_pairing_users :: "json list" where
  "mixed_pairing_users =
     [JObj [(''userId'', JStr ''11111''), (''pairingId'', JInt 7)],
      JObj [(''userId'', JStr ''22222''), (''pairingId'', JStr ''00000'')],
      JObj [(''userId'', JStr ''11111''), (''pairingId'', JStr ''00001'')],
      test_pairing_user]"

definition mixed_body :: json where
  "mixed_body =
     JObj [(''entities'',
            JObj [(''pairingUser'', JObj [(''list'', JArr mixed_pairing_users)]),
                  (''pairings'', JObj [(''list'', JArr [seven_device, bare_device, test_device])])]),
           (''status'', JStr ''ok'')]"

definition mixed_session :: session where
  "mixed_session =
     \<lparr>server = (\<lambda>log req.
         if url req = ''https://auth.apsrvd.io/v1/pairings'' then Inr (json_response 200 mixed_body)
         else if url req = ''https://api.apsrvd.io/12/command'' then Inr (json_response 200 climate_body)
         else Inr (json_response 404 (JObj []))),
      calls = []\<rparr>"

definition mixed_api :: client where
  "mixed_api = AirPatrolAPI mixed_session (JStr ''dummy_token'') (JStr ''11111'')"

definition mixed_api_fetched :: client where
  "mixed_api_fetched =
     (sent mixed_api (pairings_request ''Bearer dummy_token''))\<lparr>pairings_cache := Some mixed_body\<rparr>"

section \<open>Properties\<close>

subsection \<open>Python's operations\<close>

lemma py_eq_JStr [simp]: "py_eq a (JStr s) \<longleftrightarrow> a = JStr s"
  by (cases a) (auto split: json.splits)

lemma py_get_field: "py_get d k JNull = (if is_obj d then Inr (field d k) else Inl AttributeError)"
  by (cases d) (auto simp: field_def)

lemma py_get_default:
  "py_get v k dflt = Inr x \<longleftrightarrow> is_obj v \<and> x = (if has_key v k then field v k else dflt)"
  by (cases v) (auto simp: has_key_def field_def split: option.splits)

lemma py_getitem_Inl: "py_getitem d k = Inl e \<Longrightarrow> e = KeyError \<or> e = TypeError"
  by (cases d) (auto split: option.splits)

lemma py_getitem0_Inl: "py_getitem0 d = Inl e \<Longrightarrow> e = KeyError \<or> e = TypeError \<or> e = IndexError"
  by (cases d) (auto split: list.splits)

lemma py_get_or_default:
  "py_get v k dflt = (if is_obj v then Inr (or_default v k dflt) else Inl AttributeError)"
  by (cases v) (auto simp: or_default_def has_key_def field_def split: option.splits)

lemma py_getitem_at_path:
  "at_path v (k # ks) = Some x \<longleftrightarrow> (\<exists>y. py_getitem v k = Inr y \<and> at_path y ks = Some x)"
  by (cases v) (auto split: option.splits)

subsection \<open>The operations, one request at a time\<close>

lemma resp_json_simps [simp]:
  "json_body resp = Inr j \<Longrightarrow> resp_json resp = Inr j"
  "json_body resp = Inl exn \<Longrightarrow> resp_json resp = Inl (TransportError exn)"
  by (simp_all add: resp_json_def)

lemma resp_json_not_auth [simp]: "\<not> is_auth_error (resp_json resp)"
  by (simp add: resp_json_def split: sum.splits)

lemma login_user_id_Inl:
  "login_user_id d = Inl e \<Longrightarrow> e = KeyError \<or> e = TypeError \<or> e = IndexError"
  unfolding login_user_id_def and_then_def
  by (auto split: sum.splits dest: py_getitem_Inl py_getitem0_Inl)

lemma login_access_token_Inl:
  "login_access_token d = Inl e \<Longrightarrow> e = KeyError \<or> e = TypeError"
  unfolding login_access_token_def and_then_def
  by (auto split: sum.splits dest: py_getitem_Inl)

lemma login_user_id_at_path:
  assumes "at_path data [''entities'', ''users'', ''list''] = Some (JArr (first # others))"
    and "at_path first [''id''] = Some uid"
  shows "login_user_id data = Inr uid"
  using assms
  by (auto simp: login_user_id_def and_then_def py_getitem_at_path)

lemma login_access_token_at_path:
  assumes "at_path data [''misc'', ''accessToken''] = Some tok"
  shows "login_access_token data = Inr tok"
  using assms
  by (auto simp: login_access_token_def and_then_def py_getitem_at_path)

lemma authenticate_unfold:
  "authenticate s email password =
    ((case server s (calls s) (login_request email password) of
        Inl exn \<Rightarrow> Inl (TransportError exn)
      | Inr resp \<Rightarrow>
          if status resp \<noteq> 200
          then (case text_body resp of
                  Inl exn \<Rightarrow> Inl (TransportError exn)
                | Inr logged \<Rightarrow> Inl (AirPatrolAuthenticationError ''Authentication failed''))
          else (case json_body resp of
                  Inl exn \<Rightarrow> Inl (TransportError exn)
                | Inr data \<Rightarrow>
                    if \<not> is_obj data then Inl AttributeError
                    else if field data ''status'' \<noteq> JStr ''ok''
                    then Inl (AirPatrolAuthenticationError ''Authentication failed'')
                    else
                      and_then (login_user_id data) (\<lambda>uid.
                      and_then (login_access_token data) (\<lambda>tok.
                      Inr (AirPatrolAPI
                             (s\<lparr>calls := calls s @ [login_request email password]\<rparr>) tok uid))))),
     s\<lparr>calls := calls s @ [login_request email password]\<rparr>)"
  unfolding authenticate_def session_post_def session_request_def login_request_def
    AUTH_BASE_URL_def AUTH_LOGIN_ENDPOINT_def resp_json_def resp_text_def
  by (simp add: py_get_field and_then_def split: sum.splits)

lemma bearer_update [simp]:
  "bearer repr (c\<lparr>session := s\<rparr>) = bearer repr c"
  "bearer repr (c\<lparr>pairings_cache := pc\<rparr>) = bearer repr c"
  by (simp_all add: bearer_def)

lemma network_calls_sent [simp]: "network_calls (sent c req) = network_calls c @ [req]"
  by (simp add: network_calls_def sent_def)

lemma sent_fields [simp]:
  "pairings_cache (sent c req) = pairings_cache c"
  "access_token (sent c req) = access_token c"
  "user_id (sent c req) = user_id c"
  "bearer repr (sent c req) = bearer repr c"
  by (simp_all add: sent_def bearer_def)

lemma network_calls_cache [simp]:
  "network_calls (c\<lparr>pairings_cache := pc\<rparr>) = network_calls c"
  by (simp add: network_calls_def)

lemma get_pairings_cached:
  "pairings_cache c = Some d \<Longrightarrow> get_pairings repr c = (Inr d, c)"
  by (simp add: get_pairings_def)

lemma get_pairings_fetch:
  assumes "pairings_cache c = None"
  shows "get_pairings repr c =
    (case answer c (pairings_request (bearer repr c)) of
       Inl exn \<Rightarrow> (Inl (TransportError exn), sent c (pairings_request (bearer repr c)))
     | Inr resp \<Rightarrow>
         if status resp = 401 \<or> status resp = 403
         then (case text_body resp of
                 Inl exn \<Rightarrow> (Inl (TransportError exn), sent c (pairings_request (bearer repr c)))
               | Inr logged \<Rightarrow>
                   (Inl (AirPatrolAuthenticationError ''Failed to fetch pairings''),
                    sent c (pairings_request (bearer repr c))))
         else if status resp = 200
         then (case json_body resp of
                 Inl exn \<Rightarrow> (Inl (TransportError exn), sent c (pairings_request (bearer repr c)))
               | Inr data \<Rightarrow>
                   if \<not> is_obj data
                   then (Inl AttributeError, sent c (pairings_request (bearer repr c)))
                   else if field data ''status'' \<noteq> JStr ''ok''
                   then (Inl (AirPatrolError ''API returned error status''),
                         sent c (pairings_request (bearer repr c)))
                   else (Inr data,
                         (sent c (pairings_request (bearer repr c)))\<lparr>pairings_cache := Some data\<rparr>))
         else (Inl (AirPatrolError (''Failed to fetch pairings: '' @ str_of_int (status resp))),
               sent c (pairings_request (bearer repr c))))"
  using assms
  unfolding get_pairings_def session_get_def session_request_def pairings_request_def
    answer_def sent_def AUTH_BASE_URL_def AUTH_PAIRINGS_ENDPOINT_def resp_json_def resp_text_def
    and_then_def
  by (simp add: py_get_field split: sum.splits)

lemma get_pairings_calls:
  "pairings_cache c = None \<Longrightarrow>
   network_calls (snd (get_pairings repr c)) = network_calls c @ [pairings_request (bearer repr c)]"
  by (simp add: get_pairings_fetch split: sum.splits)

lemma get_pairings_Inr:
  assumes "pairings_cache c = None" and "get_pairings repr c = (Inr d, c1)"
  shows "c1 = (sent c (pairings_request (bearer repr c)))\<lparr>pairings_cache := Some d\<rparr>"
  using assms by (simp add: get_pairings_fetch split: sum.splits if_splits)

lemma get_pairings_Inl:
  assumes "get_pairings repr c = (Inl e, c1)"
  shows "pairings_cache c = None \<and> c1 = sent c (pairings_request (bearer repr c))"
proof (cases "pairings_cache c")
  case None
  with assms show ?thesis
    by (simp add: get_pairings_fetch split: sum.splits if_splits)
next
  case (Some d)
  with assms show ?thesis by (simp add: get_pairings_cached)
qed

lemma get_pairings_user_id:
  "get_pairings repr c = (r, c1) \<Longrightarrow> user_id c1 = user_id c"
  by (cases "pairings_cache c")
     (auto simp: get_pairings_fetch get_pairings_cached split: sum.splits if_splits)

lemma get_unit_climate_data_unfold:
  "get_unit_climate_data repr c unit_id =
     ((case answer c (command_request GET (bearer repr c) unit_id None) of
         Inl exn \<Rightarrow> Inl (TransportError exn)
       | Inr resp \<Rightarrow>
           if status resp = 401 \<or> status resp = 403
           then Inl (AirPatrolAuthenticationError ''Failed to fetch climate data'')
           else if status resp = 200
           then resp_json resp
           else Inl (AirPatrolError
                       (''Failed to fetch climate data: '' @ str_of_int (status resp)))),
      sent c (command_request GET (bearer repr c) unit_id None))"
  unfolding get_unit_climate_data_def session_get_def session_request_def command_request_def
    answer_def sent_def API_BASE_URL_def API_VERSION_def API_COMMAND_ENDPOINT_def
  by (simp split: sum.splits)

lemma set_unit_climate_data_unfold:
  "set_unit_climate_data repr c unit_id payload =
     ((case answer c (command_request POST (bearer repr c) unit_id (Some payload)) of
         Inl exn \<Rightarrow> Inl (TransportError exn)
       | Inr resp \<Rightarrow>
           if status resp = 401 \<or> status resp = 403
           then Inl (AirPatrolAuthenticationError ''Failed to set climate data'')
           else if status resp = 200
           then resp_json resp
           else Inl (AirPatrolError
                       (''Failed to set climate data: '' @ str_of_int (status resp)))),
      sent c (command_request POST (bearer repr c) unit_id (Some payload)))"
  unfolding set_unit_climate_data_def session_post_def session_request_def command_request_def
    answer_def sent_def API_BASE_URL_def API_VERSION_def API_COMMAND_ENDPOINT_def
  by (simp split: sum.splits)

subsection \<open>The examples of the test suite\<close>

lemma json_response_simps [simp]:
  "status (json_response st j) = st"
  "json_body (json_response st j) = Inr j"
  "text_body (json_response st j) = Inr []"
  "status (text_response st t) = st"
  "json_body (text_response st t) = Inr JNull"
  "text_body (text_response st t) = Inr t"
  by (simp_all add: json_response_def text_response_def)

lemma test_api_simps [simp]:
  "pairings_cache (test_api resp) = None"
  "access_token (test_api resp) = JStr ''test_access_token''"
  "user_id (test_api resp) = JStr ''test_user_id''"
  "answer (test_api resp) req = Inr resp"
  "network_calls (test_api resp) = []"
  "bearer repr (test_api resp) = ''Bearer test_access_token''"
  by (simp_all add: test_api_def AirPatrolAPI_def fixed_session_def answer_def
      network_calls_def bearer_def)

lemma answer_sent_fixed [simp]:
  "answer ((sent (test_api resp) req)\<lparr>pairings_cache := pc\<rparr>) req' = Inr resp"
  "answer (sent (test_api resp) req) req' = Inr resp"
  by (simp_all add: test_api_def AirPatrolAPI_def fixed_session_def answer_def sent_def)

lemma pairings_body_ok:
  "is_obj pairings_body" "field pairings_body ''status'' = JStr ''ok''"
  by (simp_all add: pairings_body_def field_def)

lemma error_body_not_ok:
  "is_obj error_body" "field error_body ''status'' = JStr ''error''"
  by (simp_all add: error_body_def field_def)

lemma test_fetch_ok:
  "get_pairings repr (test_api (json_response 200 pairings_body)) =
     (Inr pairings_body,
      (sent (test_api (json_response 200 pairings_body)) test_pairings_request)
        \<lparr>pairings_cache := Some pairings_body\<rparr>)"
  by (simp add: get_pairings_fetch pairings_body_ok test_pairings_request_def)

lemma data_api_simps [simp]:
  "pairings_cache (data_api uid) = None"
  "user_id (data_api uid) = JStr uid"
  "bearer repr (data_api uid) = ''Bearer dummy_token''"
  "network_calls (data_api uid) = []"
  by (simp_all add: data_api_def AirPatrolAPI_def bearer_def network_calls_def routed_session_def)

lemma data_api_pairings:
  "get_pairings repr (data_api uid) = (Inr pairings_body, data_api_fetched uid)"
proof -
  have "answer (data_api uid) (pairings_request ''Bearer dummy_token'')
      = Inr (json_response 200 pairings_body)"
    by (simp add: answer_def data_api_def AirPatrolAPI_def routed_session_def pairings_request_def)
  then show ?thesis
    by (simp add: get_pairings_fetch pairings_body_ok data_api_fetched_def)
qed

lemma pairings_body_lists:
  "entity_list pairings_body ''pairingUser'' = Inr (JArr [test_pairing_user])"
  "entity_list pairings_body ''pairings'' = Inr (JArr [test_device])"
  by (simp_all add: entity_list_def and_then_def pairings_body_def)

lemma test_lists_objs:
  "list_all is_obj [test_pairing_user]" "list_all is_obj [test_device]"
  by (simp_all add: test_pairing_user_def test_device_def)

lemma data_api_fetched_simps [simp]:
  "bearer repr (data_api_fetched uid) = ''Bearer dummy_token''"
  "answer (data_api_fetched uid) (command_request m a u p) = Inr (json_response 200 climate_body)"
  by (simp_all add: data_api_fetched_def data_api_def AirPatrolAPI_def bearer_def sent_def
      answer_def routed_session_def command_request_def)

subsection \<open>Authentication\<close>

text \<open>
  C1. When the login request is answered with status 200 and a body whose \<^verbatim>\<open>status\<close>
  is \<^verbatim>\<open>"ok"\<close>, whose \<^verbatim>\<open>entities.users.list\<close> is a list with a first entry that
  has an \<^verbatim>\<open>id\<close>, and which has the field \<^verbatim>\<open>misc.accessToken\<close>, then
  \<^verbatim>\<open>authenticate\<close> returns a new client whose access token is the value of
  \<^verbatim>\<open>misc.accessToken\<close>, whose user id is the \<^verbatim>\<open>id\<close> of that first entry, whose
  cache is empty and whose session is the one it was given, after the one call.
\<close>

theorem authenticate_success:
  assumes "server s (calls s) (login_request email password) = Inr resp"
    and "status resp = 200"
    and "json_body resp = Inr data"
    and "at_path data [''status''] = Some (JStr ''ok'')"
    and "at_path data [''entities'', ''users'', ''list''] = Some (JArr (first # others))"
    and "at_path first [''id''] = Some uid"
    and "at_path data [''misc'', ''accessToken''] = Some tok"
  shows "\<exists>c s'. authenticate s email password = (Inr c, s') \<and> access_token c = tok \<and> user_id c = uid
           \<and> pairings_cache c = None \<and> session c = s'
           \<and> calls s' = calls s @ [login_request email password]"
proof -
  from assms(4) have ok: "is_obj data" "field data ''status'' = JStr ''ok''"
    by (cases data; auto simp: field_def split: option.splits)+
  from assms(1,2,3) ok
    login_user_id_at_path [OF assms(5,6)] login_access_token_at_path [OF assms(7)]
  show ?thesis
    by (simp add: authenticate_unfold and_then_def AirPatrolAPI_def)
qed

theorem authenticate_success_witness:
  "server (fixed_session (json_response 200 login_ok_body))
      (calls (fixed_session (json_response 200 login_ok_body)))
      (login_request ''test@example.com'' ''password'') = Inr (json_response 200 login_ok_body)
   \<and> status (json_response 200 login_ok_body) = 200
   \<and> json_body (json_response 200 login_ok_body) = Inr login_ok_body
   \<and> at_path login_ok_body [''status''] = Some (JStr ''ok'')
   \<and> at_path login_ok_body [''entities'', ''users'', ''list'']
        = Some (JArr [JObj [(''id'', JStr ''test_user_id'')]])
   \<and> at_path (JObj [(''id'', JStr ''test_user_id'')]) [''id''] = Some (JStr ''test_user_id'')
   \<and> at_path login_ok_body [''misc'', ''accessToken''] = Some (JStr ''test_access_token'')
   \<and> (\<exists>c s'. authenticate (fixed_session (json_response 200 login_ok_body))
                 ''test@example.com'' ''password'' = (Inr c, s')
         \<and> access_token c = JStr ''test_access_token'' \<and> user_id c = JStr ''test_user_id''
         \<and> pairings_cache c = None \<and> session c = s'
         \<and> calls s' = [login_request ''test@example.com'' ''password''])"
proof -
  have h1: "server (fixed_session (json_response 200 login_ok_body))
      (calls (fixed_session (json_response 200 login_ok_body)))
      (login_request ''test@example.com'' ''password'') = Inr (json_response 200 login_ok_body)"
    by (simp add: fixed_session_def)
  have h2: "status (json_response 200 login_ok_body) = 200"
    and h3: "json_body (json_response 200 login_ok_body) = Inr login_ok_body"
    by (simp_all add: json_response_def)
  have h4: "at_path login_ok_body [''status''] = Some (JStr ''ok'')"
    and h5: "at_path login_ok_body [''entities'', ''users'', ''list'']
        = Some (JArr [JObj [(''id'', JStr ''test_user_id'')]])"
    and h7: "at_path login_ok_body [''misc'', ''accessToken''] = Some (JStr ''test_access_token'')"
    by (simp_all add: login_ok_body_def)
  have h6: "at_path (JObj [(''id'', JStr ''test_user_id'')]) [''id''] = Some (JStr ''test_user_id'')"
    by simp
  have c0: "calls (fixed_session (json_response 200 login_ok_body)) = []"
    by (simp add: fixed_session_def)
  from authenticate_success [OF h1 h2 h3 h4 h5 h6 h7] h1 h2 h3 h4 h5 h6 h7 c0
  show ?thesis by simp
qed

text \<open>A login body with two users and a token: the first user's id is stored.\<close>

lemma authenticate_first_user:
  "fst (authenticate (fixed_session (json_response 200
          (JObj [(''status'', JStr ''ok''),
                 (''entities'', JObj [(''users'', JObj [(''list'',
                    JArr [JObj [(''id'', JStr ''a'')], JObj [(''id'', JStr ''b'')]])])]),
                 (''misc'', JObj [(''accessToken'', JStr ''t''), (''other'', JStr ''x'')])])))
          email password)
     = Inr (AirPatrolAPI
              ((fixed_session (json_response 200
          (JObj [(''status'', JStr ''ok''),
                 (''entities'', JObj [(''users'', JObj [(''list'',
                    JArr [JObj [(''id'', JStr ''a'')], JObj [(''id'', JStr ''b'')]])])]),
                 (''misc'', JObj [(''accessToken'', JStr ''t''), (''other'', JStr ''x'')])])))
                 \<lparr>calls := [login_request email password]\<rparr>)
              (JStr ''t'') (JStr ''a''))"
  by (simp add: authenticate_unfold fixed_session_def field_def login_user_id_def
      login_access_token_def and_then_def)

text \<open>
  C2. When the login request is answered, \<^verbatim>\<open>authenticate\<close> fails with
  \<^verbatim>\<open>AirPatrolAuthenticationError("Authentication failed")\<close>, and so returns no
  client, in exactly two cases: the status is not 200, where the text of the body, which
  the source reads for its log before it raises, can be read; or the status is 200 and
  the body is a dictionary whose \<^verbatim>\<open>status\<close> is not \<^verbatim>\<open>"ok"\<close>.
\<close>

theorem authenticate_failure:
  assumes "server s (calls s) (login_request email password) = Inr resp"
  shows "fst (authenticate s email password)
           = Inl (AirPatrolAuthenticationError ''Authentication failed'')
     \<longleftrightarrow> (status resp \<noteq> 200 \<and> (\<exists>logged. text_body resp = Inr logged))
          \<or> (status resp = 200 \<and> (\<exists>data. json_body resp = Inr data
                \<and> is_obj data \<and> field data ''status'' \<noteq> JStr ''ok''))"
  using assms
  by (auto simp add: authenticate_unfold and_then_def
      split: sum.splits if_splits
      dest: login_user_id_Inl login_access_token_Inl)

theorem authenticate_failure_witness:
  "server (fixed_session (text_response 401 ''Unauthorized''))
      (calls (fixed_session (text_response 401 ''Unauthorized'')))
      (login_request ''test@example.com'' ''password'') = Inr (text_response 401 ''Unauthorized'')
   \<and> status (text_response 401 ''Unauthorized'') = 401
   \<and> text_body (text_response 401 ''Unauthorized'') = Inr ''Unauthorized''
   \<and> fst (authenticate (fixed_session (text_response 401 ''Unauthorized''))
             ''test@example.com'' ''password'')
        = Inl (AirPatrolAuthenticationError ''Authentication failed'')"
proof -
  have h1: "server (fixed_session (text_response 401 ''Unauthorized''))
      (calls (fixed_session (text_response 401 ''Unauthorized'')))
      (login_request ''test@example.com'' ''password'') = Inr (text_response 401 ''Unauthorized'')"
    by (simp add: fixed_session_def)
  have h2: "status (text_response 401 ''Unauthorized'') = 401"
    and h3: "text_body (text_response 401 ''Unauthorized'') = Inr ''Unauthorized''"
    by (simp_all add: text_response_def)
  from authenticate_failure [OF h1] h1 h2 h3 show ?thesis by simp
qed

text \<open>
  Outside the hypotheses of the two theorems: a body that says \<^verbatim>\<open>"ok"\<close> and has no
  \<^verbatim>\<open>entities\<close>, one whose list of users is empty, a body that is not a dictionary,
  and a rejected login whose body cannot be read. The exception that the subscript, the
  attribute access or the response raises leaves \<^verbatim>\<open>authenticate\<close> as it is.
\<close>

lemma authenticate_no_entities:
  "fst (authenticate (fixed_session (json_response 200 (JObj [(''status'', JStr ''ok'')])))
          email password) = Inl KeyError"
  by (simp add: authenticate_unfold fixed_session_def field_def login_user_id_def and_then_def)

lemma authenticate_no_users:
  "fst (authenticate (fixed_session (json_response 200
          (JObj [(''status'', JStr ''ok''),
                 (''entities'', JObj [(''users'', JObj [(''list'', JArr [])])]),
                 (''misc'', JObj [(''accessToken'', JStr ''t'')])])))
          email password) = Inl IndexError"
  by (simp add: authenticate_unfold fixed_session_def field_def login_user_id_def and_then_def)

lemma authenticate_body_not_dict:
  "fst (authenticate (fixed_session (json_response 200 (JArr []))) email password)
     = Inl AttributeError"
  by (simp add: authenticate_unfold fixed_session_def)

lemma authenticate_unreadable_body:
  "fst (authenticate
          (fixed_session \<lparr>status = 500, json_body = Inl exn, text_body = Inl exn\<rparr>)
          email password) = Inl (TransportError exn)"
  by (simp add: authenticate_unfold fixed_session_def)

subsection \<open>Identity accessors\<close>

text \<open>
  C9. \<^verbatim>\<open>get_unique_id\<close> raises \<^verbatim>\<open>ValueError\<close> exactly when the user id is
  \<^verbatim>\<open>None\<close> and returns the stored user id otherwise; \<^verbatim>\<open>get_access_token\<close> returns
  the stored token, whatever it is, and never fails; both leave the client, and with it
  the calls made on its session, as they were.
\<close>

theorem accessors:
  "(fst (get_unique_id c) = Inl (ValueError ''Not authenticated'') \<longleftrightarrow> user_id c = JNull)
   \<and> (fst (get_unique_id c) = Inr uid \<longleftrightarrow> user_id c = uid \<and> uid \<noteq> JNull)
   \<and> snd (get_unique_id c) = c
   \<and> get_access_token c = (access_token c, c)"
  by (auto simp: get_unique_id_def get_access_token_def)

subsection \<open>Pairings discovery and its cache\<close>

text \<open>
  C3. \<^verbatim>\<open>get_pairings\<close> memoizes. With a cached document it returns that document
  and leaves the client and its session untouched: no request is sent. Starting from an
  empty cache, a first call that succeeds sends one request, and a second call returns
  the same document without another: two calls, one request. When
  \<^verbatim>\<open>clear_pairings_cache\<close> comes between them, the second call sends the request
  again.
\<close>

theorem pairings_memoization:
  "(pairings_cache c = Some d \<longrightarrow> get_pairings repr c = (Inr d, c))
   \<and> (pairings_cache c = None \<and> get_pairings repr c = (Inr d, c1) \<longrightarrow>
        network_calls c1 = network_calls c @ [pairings_request (bearer repr c)]
        \<and> get_pairings repr c1 = (Inr d, c1)
        \<and> network_calls (snd (get_pairings repr (clear_pairings_cache c1)))
            = network_calls c @ [pairings_request (bearer repr c), pairings_request (bearer repr c)])"
proof (intro conjI impI)
  assume "pairings_cache c = Some d"
  then show "get_pairings repr c = (Inr d, c)" by (rule get_pairings_cached)
next
  assume a: "pairings_cache c = None \<and> get_pairings repr c = (Inr d, c1)"
  then have c1: "c1 = (sent c (pairings_request (bearer repr c)))\<lparr>pairings_cache := Some d\<rparr>"
    by (simp add: get_pairings_Inr)
  show "network_calls c1 = network_calls c @ [pairings_request (bearer repr c)]"
    by (simp add: c1)
  show "get_pairings repr c1 = (Inr d, c1)"
    by (rule get_pairings_cached) (simp add: c1)
  have "pairings_cache (clear_pairings_cache c1) = None"
    by (simp add: clear_pairings_cache_def)
  then show "network_calls (snd (get_pairings repr (clear_pairings_cache c1)))
      = network_calls c @ [pairings_request (bearer repr c), pairings_request (bearer repr c)]"
    by (simp add: get_pairings_calls) (simp add: c1 clear_pairings_cache_def)
qed

theorem pairings_memoization_witness:
  "pairings_cache ((sent (test_api (json_response 200 pairings_body)) test_pairings_request)
        \<lparr>pairings_cache := Some pairings_body\<rparr>) = Some pairings_body
   \<and> get_pairings unused_repr ((sent (test_api (json_response 200 pairings_body)) test_pairings_request)
        \<lparr>pairings_cache := Some pairings_body\<rparr>)
       = (Inr pairings_body, (sent (test_api (json_response 200 pairings_body)) test_pairings_request)
        \<lparr>pairings_cache := Some pairings_body\<rparr>)
   \<and> pairings_cache (test_api (json_response 200 pairings_body)) = None
   \<and> get_pairings unused_repr (test_api (json_response 200 pairings_body)) =
       (Inr pairings_body,
        (sent (test_api (json_response 200 pairings_body)) test_pairings_request)
          \<lparr>pairings_cache := Some pairings_body\<rparr>)
   \<and> network_calls ((sent (test_api (json_response 200 pairings_body)) test_pairings_request)
          \<lparr>pairings_cache := Some pairings_body\<rparr>) = [test_pairings_request]
   \<and> network_calls (snd (get_pairings unused_repr (clear_pairings_cache
          ((sent (test_api (json_response 200 pairings_body)) test_pairings_request)
          \<lparr>pairings_cache := Some pairings_body\<rparr>))))
       = [test_pairings_request, test_pairings_request]"
proof -
  let ?c = "test_api (json_response 200 pairings_body)"
  let ?c1 = "(sent ?c test_pairings_request)\<lparr>pairings_cache := Some pairings_body\<rparr>"
  have h1: "pairings_cache ?c1 = Some pairings_body" by simp
  have h2: "pairings_cache ?c = None \<and> get_pairings unused_repr ?c = (Inr pairings_body, ?c1)"
    by (simp add: test_fetch_ok)
  from pairings_memoization [of ?c1 pairings_body unused_repr]
    pairings_memoization [of ?c pairings_body unused_repr ?c1] h1 h2
  show ?thesis by (simp add: test_pairings_request_def)
qed

text \<open>
  C4. With an empty cache and an answered request: status 401 or 403, where the text of
  the body can be read for the log, raises
  \<^verbatim>\<open>AirPatrolAuthenticationError("Failed to fetch pairings")\<close>; status 200 with a
  dictionary whose \<^verbatim>\<open>status\<close> is not \<^verbatim>\<open>"ok"\<close> raises
  \<^verbatim>\<open>AirPatrolError("API returned error status")\<close>; status 200 with \<^verbatim>\<open>status\<close>
  \<^verbatim>\<open>"ok"\<close> stores the whole body in the cache and returns it; every other status
  raises \<^verbatim>\<open>AirPatrolError\<close> with the message \<^verbatim>\<open>"Failed to fetch pairings: "\<close>
  followed by the status in decimal.
\<close>

theorem get_pairings_by_status:
  assumes "pairings_cache c = None"
    and "answer c (pairings_request (bearer repr c)) = Inr resp"
  shows "((status resp = 401 \<or> status resp = 403) \<and> text_body resp = Inr logged \<longrightarrow>
            get_pairings repr c =
              (Inl (AirPatrolAuthenticationError ''Failed to fetch pairings''),
               sent c (pairings_request (bearer repr c))))
       \<and> (status resp = 200 \<and> json_body resp = Inr data \<and> is_obj data
            \<and> field data ''status'' \<noteq> JStr ''ok'' \<longrightarrow>
            get_pairings repr c =
              (Inl (AirPatrolError ''API returned error status''),
               sent c (pairings_request (bearer repr c))))
       \<and> (status resp = 200 \<and> json_body resp = Inr data \<and> is_obj data
            \<and> field data ''status'' = JStr ''ok'' \<longrightarrow>
            get_pairings repr c =
              (Inr data, (sent c (pairings_request (bearer repr c)))\<lparr>pairings_cache := Some data\<rparr>))
       \<and> (status resp \<noteq> 200 \<and> status resp \<noteq> 401 \<and> status resp \<noteq> 403 \<longrightarrow>
            get_pairings repr c =
              (Inl (AirPatrolError (''Failed to fetch pairings: '' @ str_of_int (status resp))),
               sent c (pairings_request (bearer repr c))))"
  using assms by (auto simp add: get_pairings_fetch)

theorem get_pairings_by_status_witness:
  "get_pairings unused_repr (test_api (text_response 401 ''Unauthorized'')) =
     (Inl (AirPatrolAuthenticationError ''Failed to fetch pairings''),
      sent (test_api (text_response 401 ''Unauthorized'')) test_pairings_request)
   \<and> get_pairings unused_repr (test_api (json_response 200 error_body)) =
     (Inl (AirPatrolError ''API returned error status''),
      sent (test_api (json_response 200 error_body)) test_pairings_request)
   \<and> get_pairings unused_repr (test_api (json_response 200 pairings_body)) =
     (Inr pairings_body,
      (sent (test_api (json_response 200 pairings_body)) test_pairings_request)
        \<lparr>pairings_cache := Some pairings_body\<rparr>)
   \<and> get_pairings unused_repr (test_api (text_response 500 ''Internal Server Error'')) =
     (Inl (AirPatrolError ''Failed to fetch pairings: 500''),
      sent (test_api (text_response 500 ''Internal Server Error'')) test_pairings_request)"
proof -
  have n: "\<And>resp. pairings_cache (test_api resp) = None"
    and a: "\<And>resp. answer (test_api resp) (pairings_request (bearer unused_repr (test_api resp)))
              = Inr resp"
    by simp_all
  have s500: "str_of_int 500 = ''500''"
    by (simp add: str_of_int_def str_of_nat.simps)
  from get_pairings_by_status [OF n a, where resp = "text_response 401 ''Unauthorized''"
      and logged = "''Unauthorized''" and data = pairings_body]
    get_pairings_by_status [OF n a, where resp = "json_response 200 error_body"
      and logged = "''''" and data = error_body]
    get_pairings_by_status [OF n a, where resp = "json_response 200 pairings_body"
      and logged = "''''" and data = pairings_body]
    get_pairings_by_status [OF n a, where resp = "text_response 500 ''Internal Server Error''"
      and logged = "''''" and data = pairings_body]
  show ?thesis
    by (simp add: pairings_body_ok error_body_not_ok test_pairings_request_def s500)
qed

text \<open>
  C10. A call of \<^verbatim>\<open>get_pairings\<close> that fails, with whatever exception, leaves the
  cache as it was, which is empty, and changes neither the token nor the user id, so the
  next call sends the request again. The cache changes only when the request is answered
  with status 200 and a dictionary whose \<^verbatim>\<open>status\<close> is \<^verbatim>\<open>"ok"\<close>, and then it
  holds that dictionary.
\<close>

theorem failed_fetch_keeps_cache:
  "(get_pairings repr c = (Inl e, c1) \<longrightarrow>
      pairings_cache c1 = pairings_cache c \<and> pairings_cache c1 = None
      \<and> access_token c1 = access_token c \<and> user_id c1 = user_id c
      \<and> network_calls (snd (get_pairings repr c1))
           = network_calls c1 @ [pairings_request (bearer repr c)])
   \<and> (get_pairings repr c = (r, c1) \<and> pairings_cache c1 \<noteq> pairings_cache c \<longrightarrow>
        (\<exists>resp data. answer c (pairings_request (bearer repr c)) = Inr resp
            \<and> status resp = 200 \<and> json_body resp = Inr data \<and> is_obj data
            \<and> field data ''status'' = JStr ''ok''
            \<and> r = Inr data \<and> pairings_cache c1 = Some data))"
proof (intro conjI impI)
  assume a: "get_pairings repr c = (Inl e, c1)"
  then have c1: "c1 = sent c (pairings_request (bearer repr c))" and n: "pairings_cache c = None"
    by (simp_all add: get_pairings_Inl)
  show "pairings_cache c1 = pairings_cache c" "pairings_cache c1 = None"
    "access_token c1 = access_token c" "user_id c1 = user_id c"
    by (simp_all add: c1 n)
  have "pairings_cache c1 = None" by (simp add: c1 n)
  then show "network_calls (snd (get_pairings repr c1))
           = network_calls c1 @ [pairings_request (bearer repr c)]"
    by (simp add: get_pairings_calls) (simp add: c1)
next
  assume a: "get_pairings repr c = (r, c1) \<and> pairings_cache c1 \<noteq> pairings_cache c"
  show "\<exists>resp data. answer c (pairings_request (bearer repr c)) = Inr resp
            \<and> status resp = 200 \<and> json_body resp = Inr data \<and> is_obj data
            \<and> field data ''status'' = JStr ''ok''
            \<and> r = Inr data \<and> pairings_cache c1 = Some data"
  proof (cases "pairings_cache c")
    case (Some d)
    with a show ?thesis by (auto simp: get_pairings_cached)
  next
    case None
    with a show ?thesis
      by (auto simp: get_pairings_fetch split: sum.splits if_splits)
  qed
qed

theorem failed_fetch_keeps_cache_witness:
  "get_pairings unused_repr (test_api (text_response 401 ''Unauthorized'')) =
     (Inl (AirPatrolAuthenticationError ''Failed to fetch pairings''),
      sent (test_api (text_response 401 ''Unauthorized'')) test_pairings_request)
   \<and> pairings_cache (sent (test_api (text_response 401 ''Unauthorized'')) test_pairings_request) = None
   \<and> network_calls (snd (get_pairings unused_repr
        (sent (test_api (text_response 401 ''Unauthorized'')) test_pairings_request)))
       = [test_pairings_request, test_pairings_request]
   \<and> get_pairings unused_repr (test_api (json_response 200 pairings_body)) =
       (Inr pairings_body,
        (sent (test_api (json_response 200 pairings_body)) test_pairings_request)
          \<lparr>pairings_cache := Some pairings_body\<rparr>)
   \<and> pairings_cache ((sent (test_api (json_response 200 pairings_body)) test_pairings_request)
          \<lparr>pairings_cache := Some pairings_body\<rparr>) = Some pairings_body"
proof -
  let ?c = "test_api (text_response 401 ''Unauthorized'')"
  let ?d = "test_api (json_response 200 pairings_body)"
  let ?d1 = "(sent ?d test_pairings_request)\<lparr>pairings_cache := Some pairings_body\<rparr>"
  have h1: "get_pairings unused_repr ?c =
     (Inl (AirPatrolAuthenticationError ''Failed to fetch pairings''), sent ?c test_pairings_request)"
    by (simp add: get_pairings_fetch test_pairings_request_def)
  have h2: "get_pairings unused_repr ?d = (Inr pairings_body, ?d1)
      \<and> pairings_cache ?d1 \<noteq> pairings_cache ?d"
    by (simp add: test_fetch_ok)
  from failed_fetch_keeps_cache [where repr = unused_repr and c = ?c
      and e = "AirPatrolAuthenticationError ''Failed to fetch pairings''"
      and ?c1.0 = "sent ?c test_pairings_request"]
    failed_fetch_keeps_cache [where repr = unused_repr and c = ?d and r = "Inr pairings_body"
      and ?c1.0 = ?d1] h1 h2
  show ?thesis by (simp add: test_pairings_request_def)
qed

subsection \<open>Device resolution\<close>

text \<open>Where \<^verbatim>\<open>get_devices\<close> looks for its two lists: under \<^verbatim>\<open>entities\<close>, then
  under the key of the entity, then under \<^verbatim>\<open>list\<close>, a missing key standing for an
  empty dictionary or an empty list.\<close>

lemma entity_list_located:
  "entity_list data key = Inr v \<longleftrightarrow>
     is_obj data
     \<and> is_obj (or_default data ''entities'' (JObj []))
     \<and> is_obj (or_default (or_default data ''entities'' (JObj [])) key (JObj []))
     \<and> v = or_default (or_default (or_default data ''entities'' (JObj [])) key (JObj []))
              ''list'' (JArr [])"
  unfolding entity_list_def and_then_def py_get_or_default
  by auto

lemma find_pairing_objs:
  "list_all is_obj ps \<Longrightarrow>
   find_pairing ps pairing_id = Inr (find (\<lambda>p. py_eq (field p ''id'') pairing_id) ps)"
  by (induction ps) (simp_all add: py_get_field)

lemma user_pairings_step_objs:
  assumes "is_obj e"
    and "entity_list data ''pairings'' = Inr (JArr pairings)"
    and "list_all is_obj pairings"
  shows "user_pairings_step data uid e user_pairings =
     Inr (user_pairings @
          (if py_eq (field e ''userId'') uid
           then (case first_pairing pairings e of None \<Rightarrow> [] | Some p \<Rightarrow> [p])
           else []))"
  using assms
  by (simp add: user_pairings_step_def and_then_def py_get_field find_pairing_objs
      first_pairing_def split: option.splits)

lemma user_pairings_loop_objs:
  assumes "entity_list data ''pairings'' = Inr (JArr pairings)"
    and "list_all is_obj pairings"
  shows "list_all is_obj pairing_users \<Longrightarrow>
     user_pairings_loop data uid pairing_users user_pairings =
       Inr (user_pairings @ resolved_pairings uid pairing_users pairings)"
proof (induction pairing_users arbitrary: user_pairings)
  case Nil
  show ?case by (simp add: resolved_pairings_def owned_entries_def)
next
  case (Cons e rest)
  then have e: "is_obj e" and rest: "list_all is_obj rest" by simp_all
  show ?case
    by (simp add: user_pairings_step_objs [OF e assms] Cons.IH [OF rest]
        resolved_pairings_def owned_entries_def split: option.splits)
qed

lemma get_devices_objs:
  assumes "get_pairings repr c = (Inr data, c1)"
    and "entity_list data ''pairingUser'' = Inr (JArr pairing_users)"
    and "entity_list data ''pairings'' = Inr (JArr pairings)"
    and "list_all is_obj pairing_users"
    and "list_all is_obj pairings"
  shows "get_devices repr c = (Inr (resolved_pairings (user_id c) pairing_users pairings), c1)"
proof -
  have uid: "user_id c1 = user_id c"
    using assms(1) by (rule get_pairings_user_id)
  show ?thesis
    using assms(1,2)
    by (simp add: get_devices_def and_then_def uid
        user_pairings_loop_objs [OF assms(3) assms(5) assms(4)])
qed

text \<open>
  C5. Let the discovery document that \<^verbatim>\<open>get_pairings\<close> returns have the shape the
  specification describes: \<^verbatim>\<open>entities.pairingUser.list\<close> and
  \<^verbatim>\<open>entities.pairings.list\<close> are lists of dictionaries (a missing key stands for an
  empty dictionary or an empty list, as the defaults of the source say). Then
  \<^verbatim>\<open>get_devices\<close> returns exactly the pairings resolved from the entries whose
  \<^verbatim>\<open>userId\<close> equals the client's user id, each by the first pairing whose \<^verbatim>\<open>id\<close>
  equals the entry's \<^verbatim>\<open>pairingId\<close>, in the order of the entries. When no entry is the
  user's, or no pairing matches an entry of the user, the result is the empty list, and
  no exception is raised.
\<close>

theorem get_devices_resolves:
  assumes "get_pairings repr c = (Inr data, c1)"
    and "entity_list data ''pairingUser'' = Inr (JArr pairing_users)"
    and "entity_list data ''pairings'' = Inr (JArr pairings)"
    and "list_all is_obj pairing_users"
    and "list_all is_obj pairings"
  shows "get_devices repr c = (Inr (resolved_pairings (user_id c) pairing_users pairings), c1)
       \<and> (owned_entries (user_id c) pairing_users = [] \<longrightarrow> get_devices repr c = (Inr [], c1))
       \<and> ((\<forall>e \<in> set (owned_entries (user_id c) pairing_users). first_pairing pairings e = None)
            \<longrightarrow> get_devices repr c = (Inr [], c1))"
proof -
  have none: "List.map_filter f xs = []" if "\<forall>x \<in> set xs. f x = None"
    for f :: "json \<Rightarrow> json option" and xs
    using that by (induction xs) simp_all
  show ?thesis
    by (auto simp: get_devices_objs [OF assms] resolved_pairings_def none)
qed

theorem get_devices_resolves_witness:
  "get_devices unused_repr (data_api ''11111'') = (Inr [test_device], data_api_fetched ''11111'')
   \<and> owned_entries (JStr ''other_user_id'') [test_pairing_user] = []
   \<and> get_devices unused_repr (data_api ''other_user_id'') = (Inr [], data_api_fetched ''other_user_id'')"
proof -
  have r: "resolved_pairings (JStr ''11111'') [test_pairing_user] [test_device] = [test_device]"
    by (simp add: resolved_pairings_def owned_entries_def first_pairing_def
        test_pairing_user_def test_device_def field_def)
  have o: "owned_entries (JStr ''other_user_id'') [test_pairing_user] = []"
    by (simp add: owned_entries_def test_pairing_user_def field_def)
  from get_devices_resolves [OF data_api_pairings pairings_body_lists test_lists_objs,
      of unused_repr "''11111''"] r
  have a: "get_devices unused_repr (data_api ''11111'')
      = (Inr [test_device], data_api_fetched ''11111'')"
    by simp
  have o': "owned_entries (user_id (data_api ''other_user_id'')) [test_pairing_user] = []"
    using o by simp
  from get_devices_resolves [OF data_api_pairings pairings_body_lists test_lists_objs,
      of unused_repr "''other_user_id''"] o'
  have b: "get_devices unused_repr (data_api ''other_user_id'')
      = (Inr [], data_api_fetched ''other_user_id'')"
    by blast
  from a o b show ?thesis by simp
qed

text \<open>
  Outside the hypotheses of the theorem: an entry of the list that is not a dictionary
  has no \<^verbatim>\<open>get\<close>, and \<^verbatim>\<open>entities\<close> may be \<^verbatim>\<open>null\<close>.
\<close>

lemma user_pairings_loop_not_obj:
  "user_pairings_loop data uid (JNull # rest) user_pairings = Inl AttributeError"
  by (simp add: user_pairings_step_def and_then_def)

lemma entity_list_null:
  "entity_list (JObj [(''status'', JStr ''ok''), (''entities'', JNull)]) key = Inl AttributeError"
  by (simp add: entity_list_def and_then_def)

subsection \<open>Aggregated unit data\<close>

lemma find_pairing_obj: "find_pairing ps pairing_id = Inr (Some p) \<Longrightarrow> is_obj p"
  by (induction ps) (auto simp: py_get_field split: if_splits)

lemma user_pairings_step_objs_only:
  assumes "user_pairings_step data uid e user_pairings = Inr user_pairings'"
    and "list_all is_obj user_pairings"
  shows "list_all is_obj user_pairings'"
  using assms
  by (auto simp: user_pairings_step_def and_then_def split: sum.splits if_splits option.splits
      dest: find_pairing_obj)

lemma user_pairings_loop_objs_only:
  "user_pairings_loop data uid pus user_pairings = Inr devices \<Longrightarrow>
   list_all is_obj user_pairings \<Longrightarrow> list_all is_obj devices"
proof (induction pus arbitrary: user_pairings)
  case Nil
  then show ?case by simp
next
  case (Cons e rest)
  then show ?case
    by (auto split: sum.splits dest: user_pairings_step_objs_only)
qed

lemma get_pairings_same_remote:
  "get_pairings repr c = (r, c1) \<Longrightarrow>
   server (session c1) = server (session c) \<and> access_token c1 = access_token c"
  by (cases "pairings_cache c")
     (auto simp: get_pairings_fetch get_pairings_cached sent_def split: sum.splits if_splits)

lemma get_devices_Inr:
  assumes "get_devices repr c = (Inr devices, c1)"
  shows "list_all is_obj devices \<and> server (session c1) = server (session c)
       \<and> access_token c1 = access_token c"
proof -
  from assms obtain data where p: "get_pairings repr c = (Inr data, c1)"
    by (auto simp: get_devices_def split: prod.splits sum.splits)
  with assms obtain pus where "user_pairings_loop data (user_id c1) pus [] = Inr devices"
    by (auto simp: get_devices_def and_then_def split: sum.splits)
  then have "list_all is_obj devices"
    by (rule user_pairings_loop_objs_only) simp
  with get_pairings_same_remote [OF p] show ?thesis by simp
qed

text \<open>The unit of a device and its climate data, when the type is absent or a string.\<close>

lemma unit_data_snapshot:
  assumes "is_obj device"
    and "field device ''id'' = JStr unit_id"
    and "has_key device ''type'' \<longrightarrow> is_str (field device ''type'')"
  shows "\<exists>u. unit_data upper device unit_id climate_data = Inr u \<and> snapshot_of upper device u"
proof -
  have "is_str (or_default device ''type'' (JStr ''Unknown''))"
    using assms(3) by (simp add: or_default_def)
  then obtain t where t: "or_default device ''type'' (JStr ''Unknown'') = JStr t"
    by (cases "or_default device ''type'' (JStr ''Unknown'')") auto
  let ?u = "JObj [(''unit_id'', JStr unit_id),
      (''name'', or_default device ''name'' (JStr (''AirPatrol Device '' @ unit_id))),
      (''model'', JStr (''AirPatrol '' @ upper t)),
      (''manufacturer'', JStr ''AirPatrol''),
      (''hwid'', or_default device ''hwid'' JNull),
      (''type'', or_default device ''type'' JNull),
      (''app_id'', or_default device ''appId'' JNull),
      (''climate'', climate_data)]"
  have "unit_data upper device unit_id climate_data = Inr ?u"
    using assms(1) by (simp add: unit_data_def and_then_def py_get_or_default t)
  moreover have "field ?u ''unit_id'' = JStr unit_id"
    "field ?u ''manufacturer'' = JStr ''AirPatrol''"
    "field ?u ''name'' = or_default device ''name'' (JStr (''AirPatrol Device '' @ unit_id))"
    "field ?u ''model'' = JStr (''AirPatrol '' @ upper t)"
    by (simp_all add: field_def)
  then have "snapshot_of upper device ?u"
    unfolding snapshot_of_def assms(2) t by simp
  ultimately show ?thesis by blast
qed

lemma get_data_step_skip:
  assumes "is_obj device" and "\<not> has_str_id device"
  shows "get_data_step repr upper c device units = (Inr units, c)"
  using assms
  by (cases "field device ''id''")
     (simp_all add: get_data_step_def py_get_field has_str_id_def)

lemma get_data_step_unit:
  assumes "is_obj device" and "field device ''id'' = JStr unit_id"
    and "has_key device ''type'' \<longrightarrow> is_str (field device ''type'')"
    and "answer c (command_request GET (bearer repr c) unit_id None) = Inr resp"
    and "status resp = 200" and "json_body resp = Inr j"
  shows "\<exists>u. get_data_step repr upper c device units
             = (Inr (units @ [u]), sent c (command_request GET (bearer repr c) unit_id None))
           \<and> snapshot_of upper device u"
proof -
  from unit_data_snapshot [OF assms(1,2,3)] obtain u where
    "unit_data upper device unit_id j = Inr u" "snapshot_of upper device u"
    by blast
  with assms show ?thesis
    by (simp add: get_data_step_def py_get_field get_unit_climate_data_unfold)
qed

lemma get_data_loop_units:
  "list_all is_obj devices \<Longrightarrow>
   \<forall>d \<in> set devices. \<forall>unit_id log. field d ''id'' = JStr unit_id \<longrightarrow>
      (\<exists>resp j. srv log (command_request GET b unit_id None) = Inr resp
          \<and> status resp = 200 \<and> json_body resp = Inr j) \<Longrightarrow>
   \<forall>d \<in> set devices. has_str_id d \<longrightarrow> has_key d ''type'' \<longrightarrow> is_str (field d ''type'') \<Longrightarrow>
   server (session c) = srv \<Longrightarrow> bearer repr c = b \<Longrightarrow>
     \<exists>new c'. get_data_loop repr upper c devices units = (Inr (units @ new), c')
        \<and> list_all2 (snapshot_of upper) (filter has_str_id devices) new
        \<and> network_calls c' = network_calls c @
             map (\<lambda>d. command_request GET b (unit_id_of d) None) (filter has_str_id devices)"
proof (induction devices arbitrary: c units)
  case Nil
  then show ?case by simp
next
  case (Cons device rest)
  have obj: "is_obj device" and objs: "list_all is_obj rest"
    using Cons.prems(1) by simp_all
  have rest_answers: "\<forall>d \<in> set rest. \<forall>unit_id log. field d ''id'' = JStr unit_id \<longrightarrow>
      (\<exists>resp j. srv log (command_request GET b unit_id None) = Inr resp
          \<and> status resp = 200 \<and> json_body resp = Inr j)"
    using Cons.prems(2) by simp
  have rest_types: "\<forall>d \<in> set rest. has_str_id d \<longrightarrow> has_key d ''type'' \<longrightarrow>
      is_str (field d ''type'')"
    using Cons.prems(3) by simp
  show ?case
  proof (cases "has_str_id device")
    case False
    from Cons.IH [OF objs rest_answers rest_types Cons.prems(4,5), where units = units]
    show ?thesis
      by (simp add: get_data_step_skip [OF obj False] False)
  next
    case True
    then obtain unit_id where uid: "field device ''id'' = JStr unit_id"
      by (cases "field device ''id''") (auto simp: has_str_id_def)
    have ty: "has_key device ''type'' \<longrightarrow> is_str (field device ''type'')"
      using Cons.prems(3) True by simp
    from Cons.prems(2) uid obtain resp j where
      "srv (calls (session c)) (command_request GET b unit_id None) = Inr resp"
      and st: "status resp = 200" and jb: "json_body resp = Inr j"
      by fastforce
    then have a: "answer c (command_request GET (bearer repr c) unit_id None) = Inr resp"
      by (simp add: answer_def Cons.prems(4,5))
    let ?c1 = "sent c (command_request GET (bearer repr c) unit_id None)"
    from get_data_step_unit [OF obj uid ty a st jb, where upper = upper and units = units]
    obtain u where
      step: "get_data_step repr upper c device units = (Inr (units @ [u]), ?c1)"
      and snap: "snapshot_of upper device u"
      by blast
    have s1: "server (session ?c1) = srv" and b1: "bearer repr ?c1 = b"
      using Cons.prems(4,5) by (simp_all add: sent_def bearer_def)
    from Cons.IH [OF objs rest_answers rest_types s1 b1, where units = "units @ [u]"]
    obtain new c' where
      loop: "get_data_loop repr upper ?c1 rest (units @ [u]) = (Inr ((units @ [u]) @ new), c')"
      and snaps: "list_all2 (snapshot_of upper) (filter has_str_id rest) new"
      and calls: "network_calls c' = network_calls ?c1 @
             map (\<lambda>d. command_request GET b (unit_id_of d) None) (filter has_str_id rest)"
      by blast
    have "get_data_loop repr upper c (device # rest) units = (Inr (units @ (u # new)), c')"
      by (simp add: step loop)
    moreover have "list_all2 (snapshot_of upper) (filter has_str_id (device # rest)) (u # new)"
      by (simp add: True snap snaps)
    moreover have "network_calls c' = network_calls c @
             map (\<lambda>d. command_request GET b (unit_id_of d) None) (filter has_str_id (device # rest))"
      by (simp add: calls True unit_id_of_def uid Cons.prems(5))
    ultimately show ?thesis by blast
  qed
qed

text \<open>Every list of units that is returned.\<close>

lemma py_upper_Inr: "py_upper upper v = Inr up \<longleftrightarrow> (\<exists>t. v = JStr t \<and> up = upper t)"
  by (cases v) auto

lemma unit_data_Inr:
  assumes "unit_data upper device unit_id climate_data = Inr u"
    and "field device ''id'' = JStr unit_id"
  shows "snapshot_of upper device u"
proof -
  from assms(1) have obj: "is_obj device"
    by (cases device) (auto simp: unit_data_def and_then_def)
  from assms(1) obtain t where t: "or_default device ''type'' (JStr ''Unknown'') = JStr t"
    and u: "u = JObj [(''unit_id'', JStr unit_id),
      (''name'', or_default device ''name'' (JStr (''AirPatrol Device '' @ unit_id))),
      (''model'', JStr (''AirPatrol '' @ upper t)),
      (''manufacturer'', JStr ''AirPatrol''),
      (''hwid'', or_default device ''hwid'' JNull),
      (''type'', or_default device ''type'' JNull),
      (''app_id'', or_default device ''appId'' JNull),
      (''climate'', climate_data)]"
    unfolding unit_data_def and_then_def py_get_or_default
    by (auto simp: obj py_upper_Inr split: sum.splits)
  have "field u ''unit_id'' = JStr unit_id"
    "field u ''manufacturer'' = JStr ''AirPatrol''"
    "field u ''name'' = or_default device ''name'' (JStr (''AirPatrol Device '' @ unit_id))"
    "field u ''model'' = JStr (''AirPatrol '' @ upper t)"
    by (simp_all add: u field_def)
  then show ?thesis
    unfolding snapshot_of_def assms(2) t by simp
qed

lemma get_data_step_Inr:
  assumes "get_data_step repr upper c device units = (Inr units', c')"
  shows "(has_str_id device \<and> (\<exists>u. units' = units @ [u] \<and> snapshot_of upper device u))
       \<or> (\<not> has_str_id device \<and> units' = units)"
proof -
  from assms obtain i where i: "py_get device ''id'' JNull = Inr i"
    unfolding get_data_step_def by (auto split: sum.splits)
  then have f: "field device ''id'' = i"
    by (simp add: py_get_field split: if_splits)
  show ?thesis
  proof (cases i)
    case (JStr unit_id)
    with assms i obtain climate_data u where
      "unit_data upper device unit_id climate_data = Inr u" "units' = units @ [u]"
      unfolding get_data_step_def by (auto split: sum.splits prod.splits)
    with f JStr show ?thesis
      by (auto simp: has_str_id_def intro: unit_data_Inr)
  qed (use assms i f in \<open>auto simp: get_data_step_def has_str_id_def\<close>)
qed

lemma get_data_loop_Inr:
  "get_data_loop repr upper c devices units = (Inr units', c') \<Longrightarrow>
   \<exists>new. units' = units @ new \<and> list_all2 (snapshot_of upper) (filter has_str_id devices) new"
proof (induction devices arbitrary: c units)
  case Nil
  then show ?case by simp
next
  case (Cons device rest)
  from Cons.prems obtain units1 c1 where
    step: "get_data_step repr upper c device units = (Inr units1, c1)"
    and loop: "get_data_loop repr upper c1 rest units1 = (Inr units', c')"
    by (auto split: prod.splits sum.splits)
  from Cons.IH [OF loop] obtain new where
    new: "units' = units1 @ new" "list_all2 (snapshot_of upper) (filter has_str_id rest) new"
    by blast
  from get_data_step_Inr [OF step] show ?case
  proof
    assume "has_str_id device \<and> (\<exists>u. units1 = units @ [u] \<and> snapshot_of upper device u)"
    then obtain u where "has_str_id device" "units1 = units @ [u]" "snapshot_of upper device u"
      by blast
    with new have "units' = units @ (u # new)"
      "list_all2 (snapshot_of upper) (filter has_str_id (device # rest)) (u # new)"
      by simp_all
    then show ?thesis by blast
  next
    assume "\<not> has_str_id device \<and> units1 = units"
    with new have "units' = units @ new"
      "list_all2 (snapshot_of upper) (filter has_str_id (device # rest)) new"
      by simp_all
    then show ?thesis by blast
  qed
qed

text \<open>
  C6. For the devices that \<^verbatim>\<open>get_devices\<close> resolved, \<^verbatim>\<open>get_units\<close> is
  \<^verbatim>\<open>get_data\<close>, and every list of units that it returns is, in the order of the
  devices, one snapshot for each device whose \<^verbatim>\<open>id\<close> is a string, the other devices
  being passed over: the snapshot's \<^verbatim>\<open>unit_id\<close> is the device's id, its \<^verbatim>\<open>model\<close>
  is \<^verbatim>\<open>"AirPatrol "\<close> followed by the upper-cased type (\<^verbatim>\<open>"Unknown"\<close> when the
  device has none), its \<^verbatim>\<open>name\<close> is the device's name or, when it has none,
  \<^verbatim>\<open>"AirPatrol Device "\<close> followed by the id, and its \<^verbatim>\<open>manufacturer\<close> is
  \<^verbatim>\<open>"AirPatrol"\<close>. It does return such a list, having sent one request for each
  device with a string \<^verbatim>\<open>id\<close> and none for the others, when the remote side
  answers every request for the climate data of one of the devices with status 200 and
  a body that decodes, and every \<^verbatim>\<open>type\<close> that a device with a string \<^verbatim>\<open>id\<close>
  has is a string.
\<close>

theorem get_data_snapshots:
  assumes "get_devices repr c = (Inr devices, c1)"
  shows "get_units repr upper c = get_data repr upper c
    \<and> (\<forall>units c2. get_data repr upper c = (Inr units, c2) \<longrightarrow>
          list_all2 (snapshot_of upper) (filter has_str_id devices) units)
    \<and> ((\<forall>d \<in> set devices. \<forall>unit_id log. field d ''id'' = JStr unit_id \<longrightarrow>
          (\<exists>resp j. server (session c) log (command_request GET (bearer repr c) unit_id None)
                        = Inr resp
              \<and> status resp = 200 \<and> json_body resp = Inr j))
        \<and> (\<forall>d \<in> set devices. has_str_id d \<longrightarrow> has_key d ''type'' \<longrightarrow>
              is_str (field d ''type''))
        \<longrightarrow> (\<exists>units c2. get_data repr upper c = (Inr units, c2)
              \<and> network_calls c2 = network_calls c1 @
                   map (\<lambda>d. command_request GET (bearer repr c) (unit_id_of d) None)
                       (filter has_str_id devices)))"
proof (intro conjI allI impI)
  show "get_units repr upper c = get_data repr upper c"
    by (simp add: get_units_def)
next
  fix units c2
  assume "get_data repr upper c = (Inr units, c2)"
  with assms have "get_data_loop repr upper c1 devices [] = (Inr units, c2)"
    by (simp add: get_data_def)
  from get_data_loop_Inr [OF this]
  show "list_all2 (snapshot_of upper) (filter has_str_id devices) units"
    by simp
next
  assume h: "(\<forall>d \<in> set devices. \<forall>unit_id log. field d ''id'' = JStr unit_id \<longrightarrow>
          (\<exists>resp j. server (session c) log (command_request GET (bearer repr c) unit_id None)
                        = Inr resp
              \<and> status resp = 200 \<and> json_body resp = Inr j))
        \<and> (\<forall>d \<in> set devices. has_str_id d \<longrightarrow> has_key d ''type'' \<longrightarrow>
              is_str (field d ''type''))"
  from get_devices_Inr [OF assms] have objs: "list_all is_obj devices"
    and srv: "server (session c1) = server (session c)"
    and b: "bearer repr c1 = bearer repr c"
    by (simp_all add: bearer_def)
  from get_data_loop_units [OF objs conjunct1 [OF h] conjunct2 [OF h] srv b,
      where upper = upper and units = "[]"] assms
  show "\<exists>units c2. get_data repr upper c = (Inr units, c2)
              \<and> network_calls c2 = network_calls c1 @
                   map (\<lambda>d. command_request GET (bearer repr c) (unit_id_of d) None)
                       (filter has_str_id devices)"
    by (auto simp: get_data_def)
qed

text \<open>The example: of three devices, the first is passed over, the second has only
  an id, the third is the device of the test suite.\<close>

lemma ascii_upper_apw: "ascii_upper ''apw'' = ''APW''"
  by (simp add: ascii_upper_def)

lemma ascii_upper_Unknown: "ascii_upper ''Unknown'' = ''UNKNOWN''"
  by (simp add: ascii_upper_def)

lemma unit_data_test_device:
  "unit_data ascii_upper test_device ''00000'' climate_body = Inr test_unit"
  by (simp add: unit_data_def and_then_def test_device_def ascii_upper_apw test_unit_def)

lemma unit_data_bare_device:
  "unit_data ascii_upper bare_device ''00001'' climate_body = Inr bare_unit"
  by (simp add: unit_data_def and_then_def bare_device_def ascii_upper_Unknown bare_unit_def)

lemma mixed_api_simps [simp]:
  "pairings_cache mixed_api = None"
  "user_id mixed_api = JStr ''11111''"
  "bearer repr mixed_api = ''Bearer dummy_token''"
  "network_calls mixed_api = []"
  "bearer repr mixed_api_fetched = ''Bearer dummy_token''"
  "network_calls mixed_api_fetched = [pairings_request ''Bearer dummy_token'']"
  by (simp_all add: mixed_api_def mixed_api_fetched_def AirPatrolAPI_def bearer_def
      network_calls_def mixed_session_def sent_def)

lemma mixed_session_command:
  "server (session c) = server mixed_session \<Longrightarrow>
   answer c (command_request m a u p) = Inr (json_response 200 climate_body)"
  by (simp add: answer_def mixed_session_def command_request_def)

lemma mixed_servers [simp]:
  "server (session mixed_api) = server mixed_session"
  "server (session mixed_api_fetched) = server mixed_session"
  "server (session (sent c req)) = server (session c)"
  by (simp_all add: mixed_api_def mixed_api_fetched_def AirPatrolAPI_def sent_def)

lemma mixed_api_pairings:
  "get_pairings repr mixed_api = (Inr mixed_body, mixed_api_fetched)"
proof -
  have "answer mixed_api (pairings_request ''Bearer dummy_token'')
      = Inr (json_response 200 mixed_body)"
    by (simp add: answer_def mixed_api_def AirPatrolAPI_def mixed_session_def pairings_request_def)
  moreover have "is_obj mixed_body" "field mixed_body ''status'' = JStr ''ok''"
    by (simp_all add: mixed_body_def field_def)
  ultimately show ?thesis
    by (simp add: get_pairings_fetch mixed_api_fetched_def)
qed

lemma mixed_api_devices:
  "get_devices repr mixed_api
     = (Inr [seven_device, bare_device, test_device], mixed_api_fetched)"
proof -
  have lists: "entity_list mixed_body ''pairingUser'' = Inr (JArr mixed_pairing_users)"
    "entity_list mixed_body ''pairings'' = Inr (JArr [seven_device, bare_device, test_device])"
    by (simp_all add: entity_list_def and_then_def mixed_body_def)
  have objs: "list_all is_obj mixed_pairing_users"
    "list_all is_obj [seven_device, bare_device, test_device]"
    by (simp_all add: mixed_pairing_users_def seven_device_def bare_device_def test_device_def
        test_pairing_user_def)
  have "resolved_pairings (user_id mixed_api) mixed_pairing_users
          [seven_device, bare_device, test_device]
      = [seven_device, bare_device, test_device]"
    by (simp add: resolved_pairings_def owned_entries_def first_pairing_def
        mixed_pairing_users_def seven_device_def bare_device_def test_device_def
        test_pairing_user_def field_def)
  with get_devices_objs [OF mixed_api_pairings lists objs, of repr]
  show ?thesis by simp
qed

lemma mixed_has_str_id:
  "\<not> has_str_id seven_device" "has_str_id bare_device" "has_str_id test_device"
  by (simp_all add: has_str_id_def field_def seven_device_def bare_device_def test_device_def)

lemma mixed_api_data:
  "get_data repr ascii_upper mixed_api =
     (Inr [bare_unit, test_unit],
      sent (sent mixed_api_fetched (command_request GET ''Bearer dummy_token'' ''00001'' None))
        (command_request GET ''Bearer dummy_token'' ''00000'' None))"
proof -
  have seven: "get_data_step repr ascii_upper mixed_api_fetched seven_device []
      = (Inr [], mixed_api_fetched)"
    by (rule get_data_step_skip) (simp_all add: mixed_has_str_id, simp add: seven_device_def)
  have ids: "py_get bare_device ''id'' JNull = Inr (JStr ''00001'')"
    "py_get test_device ''id'' JNull = Inr (JStr ''00000'')"
    by (simp_all add: bare_device_def test_device_def)
  let ?c1 = "sent mixed_api_fetched (command_request GET ''Bearer dummy_token'' ''00001'' None)"
  have bare: "get_data_step repr ascii_upper mixed_api_fetched bare_device []
      = (Inr [bare_unit], ?c1)"
    by (simp add: get_data_step_def ids get_unit_climate_data_unfold mixed_session_command
        unit_data_bare_device)
  have test: "get_data_step repr ascii_upper ?c1 test_device [bare_unit]
      = (Inr [bare_unit, test_unit],
         sent ?c1 (command_request GET ''Bearer dummy_token'' ''00000'' None))"
    by (simp add: get_data_step_def ids get_unit_climate_data_unfold mixed_session_command
        unit_data_test_device)
  show ?thesis
    by (simp add: get_data_def mixed_api_devices seven bare test)
qed

theorem get_data_snapshots_witness:
  "get_devices unused_repr mixed_api
     = (Inr [seven_device, bare_device, test_device], mixed_api_fetched)
   \<and> filter has_str_id [seven_device, bare_device, test_device] = [bare_device, test_device]
   \<and> get_data unused_repr ascii_upper mixed_api =
       (Inr [bare_unit, test_unit],
        sent (sent mixed_api_fetched (command_request GET ''Bearer dummy_token'' ''00001'' None))
          (command_request GET ''Bearer dummy_token'' ''00000'' None))
   \<and> get_units unused_repr ascii_upper mixed_api = get_data unused_repr ascii_upper mixed_api
   \<and> snapshot_of ascii_upper bare_device bare_unit
   \<and> snapshot_of ascii_upper test_device test_unit
   \<and> field bare_unit ''unit_id'' = JStr ''00001''
   \<and> field bare_unit ''name'' = JStr ''AirPatrol Device 00001''
   \<and> field bare_unit ''model'' = JStr ''AirPatrol UNKNOWN''
   \<and> field bare_unit ''manufacturer'' = JStr ''AirPatrol''
   \<and> field test_unit ''unit_id'' = JStr ''00000''
   \<and> field test_unit ''name'' = JStr ''Test Device''
   \<and> field test_unit ''model'' = JStr ''AirPatrol APW''
   \<and> field test_unit ''manufacturer'' = JStr ''AirPatrol''"
proof -
  have answers: "\<forall>d \<in> set [seven_device, bare_device, test_device].
      \<forall>unit_id log. field d ''id'' = JStr unit_id \<longrightarrow>
      (\<exists>resp j. server (session mixed_api) log
                  (command_request GET (bearer unused_repr mixed_api) unit_id None) = Inr resp
          \<and> status resp = 200 \<and> json_body resp = Inr j)"
    by (simp add: mixed_api_def AirPatrolAPI_def mixed_session_def command_request_def)
  have types: "\<forall>d \<in> set [seven_device, bare_device, test_device].
      has_str_id d \<longrightarrow> has_key d ''type'' \<longrightarrow> is_str (field d ''type'')"
    by (simp add: seven_device_def bare_device_def test_device_def has_key_def field_def)
  have f: "filter has_str_id [seven_device, bare_device, test_device] = [bare_device, test_device]"
    by (simp add: mixed_has_str_id)
  have fields: "field bare_unit ''unit_id'' = JStr ''00001''"
    "field bare_unit ''name'' = JStr ''AirPatrol Device 00001''"
    "field bare_unit ''model'' = JStr ''AirPatrol UNKNOWN''"
    "field bare_unit ''manufacturer'' = JStr ''AirPatrol''"
    "field test_unit ''unit_id'' = JStr ''00000''"
    "field test_unit ''name'' = JStr ''Test Device''"
    "field test_unit ''model'' = JStr ''AirPatrol APW''"
    "field test_unit ''manufacturer'' = JStr ''AirPatrol''"
    by (simp_all add: bare_unit_def test_unit_def field_def)
  from get_data_snapshots [where repr = unused_repr and upper = ascii_upper and c = mixed_api,
      OF mixed_api_devices] answers types
  have same: "get_units unused_repr ascii_upper mixed_api
                  = get_data unused_repr ascii_upper mixed_api"
    and every: "\<forall>units c2. get_data unused_repr ascii_upper mixed_api = (Inr units, c2) \<longrightarrow>
          list_all2 (snapshot_of ascii_upper)
            (filter has_str_id [seven_device, bare_device, test_device]) units"
    and "\<exists>units c2. get_data unused_repr ascii_upper mixed_api = (Inr units, c2)
          \<and> network_calls c2 = network_calls mixed_api_fetched @
               map (\<lambda>d. command_request GET (bearer unused_repr mixed_api) (unit_id_of d) None)
                   (filter has_str_id [seven_device, bare_device, test_device])"
    by blast+
  then obtain units c2 where
    run: "get_data unused_repr ascii_upper mixed_api = (Inr units, c2)"
    by blast
  with every have snaps: "list_all2 (snapshot_of ascii_upper)
                  (filter has_str_id [seven_device, bare_device, test_device]) units"
    by blast
  from run have "units = [bare_unit, test_unit]"
    by (simp add: mixed_api_data)
  with snaps have "snapshot_of ascii_upper bare_device bare_unit"
    and "snapshot_of ascii_upper test_device test_unit"
    unfolding f by simp_all
  with same
  have "get_units unused_repr ascii_upper mixed_api = get_data unused_repr ascii_upper mixed_api"
    and "snapshot_of ascii_upper bare_device bare_unit"
    and "snapshot_of ascii_upper test_device test_unit"
    by simp_all
  with mixed_api_devices mixed_api_data f fields show ?thesis by simp
qed

text \<open>The run of \<^verbatim>\<open>test_get_data_success\<close> and of \<^verbatim>\<open>test_get_units\<close>.\<close>

lemma data_api_devices:
  "get_devices repr (data_api ''11111'') = (Inr [test_device], data_api_fetched ''11111'')"
proof -
  have "resolved_pairings (user_id (data_api ''11111'')) [test_pairing_user] [test_device]
      = [test_device]"
    by (simp add: resolved_pairings_def owned_entries_def first_pairing_def
        test_pairing_user_def test_device_def field_def)
  with get_devices_objs [OF data_api_pairings pairings_body_lists test_lists_objs,
      of repr "''11111''"]
  show ?thesis by simp
qed

lemma data_api_units:
  "get_units repr ascii_upper (data_api ''11111'') =
     (Inr [test_unit],
      sent (data_api_fetched ''11111'') (command_request GET ''Bearer dummy_token'' ''00000'' None))"
proof -
  have id: "py_get test_device ''id'' JNull = Inr (JStr ''00000'')"
    by (simp add: test_device_def)
  have step: "get_data_step repr ascii_upper (data_api_fetched ''11111'') test_device [] =
     (Inr [test_unit],
      sent (data_api_fetched ''11111'') (command_request GET ''Bearer dummy_token'' ''00000'' None))"
    by (simp add: get_data_step_def id get_unit_climate_data_unfold unit_data_test_device)
  show ?thesis
    by (simp add: get_units_def get_data_def data_api_devices step)
qed

text \<open>A device whose type is not a string: the climate data are fetched, then
  \<^verbatim>\<open>.upper()\<close> raises.\<close>

lemma get_data_loop_type_not_str:
  "get_data_loop repr upper (data_api_fetched uid)
          [JObj [(''id'', JStr ''00002''), (''type'', JNull)]] []
     = (Inl AttributeError,
        sent (data_api_fetched uid) (command_request GET ''Bearer dummy_token'' ''00002'' None))"
  by (simp add: get_data_step_def get_unit_climate_data_unfold unit_data_def and_then_def)

text \<open>A climate request that is refused ends the aggregation with its exception.\<close>

lemma get_data_loop_refused:
  "fst (get_data_loop repr upper (test_api (text_response 500 ''Internal Server Error''))
          [test_device] [])
     = Inl (AirPatrolError ''Failed to fetch climate data: 500'')"
proof -
  have "str_of_int 500 = ''500''"
    by (simp add: str_of_int_def str_of_nat.simps)
  then show ?thesis
    by (simp add: get_data_step_def get_unit_climate_data_unfold test_device_def)
qed

subsection \<open>Climate read and write\<close>

text \<open>
  C7. When the request is answered, \<^verbatim>\<open>get_unit_climate_data\<close> and
  \<^verbatim>\<open>set_unit_climate_data\<close> raise \<^verbatim>\<open>AirPatrolAuthenticationError\<close> exactly when
  the status is 401 or 403; with status 200 they return the decoded body as it is,
  whatever it holds; with every other status they raise \<^verbatim>\<open>AirPatrolError\<close> with a
  message that ends in the status in decimal.
\<close>

theorem climate_by_status:
  assumes "answer c (command_request GET (bearer repr c) unit_id None) = Inr resp"
    and "answer c (command_request POST (bearer repr c) unit_id (Some payload)) = Inr resp'"
  shows "(is_auth_error (fst (get_unit_climate_data repr c unit_id))
            \<longleftrightarrow> status resp = 401 \<or> status resp = 403)
       \<and> (status resp = 401 \<or> status resp = 403 \<longrightarrow>
            fst (get_unit_climate_data repr c unit_id)
              = Inl (AirPatrolAuthenticationError ''Failed to fetch climate data''))
       \<and> (status resp = 200 \<and> json_body resp = Inr j \<longrightarrow>
            fst (get_unit_climate_data repr c unit_id) = Inr j)
       \<and> (status resp \<noteq> 200 \<and> status resp \<noteq> 401 \<and> status resp \<noteq> 403 \<longrightarrow>
            fst (get_unit_climate_data repr c unit_id)
              = Inl (AirPatrolError
                       (''Failed to fetch climate data: '' @ str_of_int (status resp))))
       \<and> (is_auth_error (fst (set_unit_climate_data repr c unit_id payload))
            \<longleftrightarrow> status resp' = 401 \<or> status resp' = 403)
       \<and> (status resp' = 401 \<or> status resp' = 403 \<longrightarrow>
            fst (set_unit_climate_data repr c unit_id payload)
              = Inl (AirPatrolAuthenticationError ''Failed to set climate data''))
       \<and> (status resp' = 200 \<and> json_body resp' = Inr j' \<longrightarrow>
            fst (set_unit_climate_data repr c unit_id payload) = Inr j')
       \<and> (status resp' \<noteq> 200 \<and> status resp' \<noteq> 401 \<and> status resp' \<noteq> 403 \<longrightarrow>
            fst (set_unit_climate_data repr c unit_id payload)
              = Inl (AirPatrolError
                       (''Failed to set climate data: '' @ str_of_int (status resp'))))"
proof -
  have g: "fst (get_unit_climate_data repr c unit_id) =
     (if status resp = 401 \<or> status resp = 403
      then Inl (AirPatrolAuthenticationError ''Failed to fetch climate data'')
      else if status resp = 200 then resp_json resp
      else Inl (AirPatrolError (''Failed to fetch climate data: '' @ str_of_int (status resp))))"
    using assms(1) by (simp add: get_unit_climate_data_unfold)
  have s: "fst (set_unit_climate_data repr c unit_id payload) =
     (if status resp' = 401 \<or> status resp' = 403
      then Inl (AirPatrolAuthenticationError ''Failed to set climate data'')
      else if status resp' = 200 then resp_json resp'
      else Inl (AirPatrolError (''Failed to set climate data: '' @ str_of_int (status resp'))))"
    using assms(2) by (simp add: set_unit_climate_data_unfold)
  show ?thesis
    unfolding g s by auto
qed

theorem climate_by_status_witness:
  "fst (get_unit_climate_data unused_repr (test_api (text_response 401 ''Unauthorized'')) ''00000'')
     = Inl (AirPatrolAuthenticationError ''Failed to fetch climate data'')
   \<and> fst (set_unit_climate_data unused_repr (test_api (text_response 403 ''Forbidden'')) ''00000''
            (JObj [(''foo'', JStr ''bar'')]))
     = Inl (AirPatrolAuthenticationError ''Failed to set climate data'')
   \<and> fst (get_unit_climate_data unused_repr (test_api (json_response 200 climate_body)) ''00000'')
     = Inr climate_body
   \<and> fst (set_unit_climate_data unused_repr (test_api (json_response 200 error_body)) ''00000''
            (JObj [(''foo'', JStr ''bar'')]))
     = Inr error_body
   \<and> fst (get_unit_climate_data unused_repr (test_api (text_response 400 ''Bad Request'')) ''00000'')
     = Inl (AirPatrolError ''Failed to fetch climate data: 400'')
   \<and> fst (set_unit_climate_data unused_repr (test_api (text_response 400 ''Bad Request'')) ''00000''
            (JObj [(''foo'', JStr ''bar'')]))
     = Inl (AirPatrolError ''Failed to set climate data: 400'')"
proof -
  have a: "\<And>resp req. answer (test_api resp) req = Inr resp"
    by simp
  have s400: "str_of_int 400 = ''400''"
    by (simp add: str_of_int_def str_of_nat.simps)
  from climate_by_status [where c = "test_api (text_response 401 ''Unauthorized'')" and resp = "text_response 401 ''Unauthorized''" and resp' = "text_response 401 ''Unauthorized''"
      and repr = unused_repr and unit_id = "''00000''" and payload = "JObj [(''foo'', JStr ''bar'')]"
      and j = climate_body and j' = climate_body, OF a a]
    climate_by_status [where c = "test_api (text_response 403 ''Forbidden'')" and resp = "text_response 403 ''Forbidden''" and resp' = "text_response 403 ''Forbidden''"
      and repr = unused_repr and unit_id = "''00000''" and payload = "JObj [(''foo'', JStr ''bar'')]"
      and j = climate_body and j' = climate_body, OF a a]
    climate_by_status [where c = "test_api (json_response 200 climate_body)" and resp = "json_response 200 climate_body" and resp' = "json_response 200 climate_body"
      and repr = unused_repr and unit_id = "''00000''" and payload = "JObj [(''foo'', JStr ''bar'')]"
      and j = climate_body and j' = climate_body, OF a a]
    climate_by_status [where c = "test_api (json_response 200 error_body)" and resp = "json_response 200 error_body" and resp' = "json_response 200 error_body"
      and repr = unused_repr and unit_id = "''00000''" and payload = "JObj [(''foo'', JStr ''bar'')]"
      and j = error_body and j' = error_body, OF a a]
    climate_by_status [where c = "test_api (text_response 400 ''Bad Request'')" and resp = "text_response 400 ''Bad Request''" and resp' = "text_response 400 ''Bad Request''"
      and repr = unused_repr and unit_id = "''00000''" and payload = "JObj [(''foo'', JStr ''bar'')]"
      and j = climate_body and j' = climate_body, OF a a]
  show ?thesis by (simp add: s400)
qed

text \<open>
  C8. \<^verbatim>\<open>set_unit_climate_data\<close> sends exactly one request: a POST to the command
  endpoint with the headers \<^verbatim>\<open>Authorization\<close>, which is \<^verbatim>\<open>"Bearer "\<close> followed by
  the formatted access token (the token itself when it is a string), and
  \<^verbatim>\<open>X-Pairing-Id\<close>, which is the unit id, and with the caller's payload, unchanged, as
  the JSON body.
\<close>

theorem set_unit_climate_data_request:
  "network_calls (snd (set_unit_climate_data repr c unit_id payload)) =
     network_calls c @
       [\<lparr>verb = POST, url = ''https://api.apsrvd.io/12/command'',
         headers = [(''Authorization'', ''Bearer '' @ py_format repr (access_token c)),
                    (''X-Pairing-Id'', unit_id)],
         body = Some payload\<rparr>]
   \<and> headers (last (network_calls
        (snd (set_unit_climate_data repr (c\<lparr>access_token := JStr token\<rparr>) unit_id payload)))) =
       [(''Authorization'', ''Bearer '' @ token), (''X-Pairing-Id'', unit_id)]"
  by (simp add: set_unit_climate_data_unfold command_request_def bearer_def)

end
